theory Spec2Isabelle
  imports Complex_Main "HOL-Library.Product_Lexorder"
begin

section \<open>Data model of plot_scripts/gdpruler_benchmark_plot.py\<close>

text \<open>
  The script reads a CSV table of benchmark results with pandas, groups and averages it,
  and hands the series to matplotlib. The nine columns it reads fall into two families:
  the five experiment parameters (integers, used for filtering and grouping) and the four
  measured metrics (floats, averaged). Floats are idealised as \<open>real\<close>: NaN, infinities
  and rounding are outside the model, and every cell of a present column holds a number.
\<close>

datatype dim = Batch_size | Entry_size_bytes | Consumers | Use_encryption | Compression_level

datatype metric = Entries_per_sec | Write_amplification | Avg_latency_ms
  | Logical_throughput_gib_sec

datatype label_col = Encryption_label | Compression_label | Entry_size_label

datatype column = Dim dim | Metric metric | Label label_col

record benchmark_record =
  batch_size :: int
  entry_size_bytes :: int
  consumers :: int
  use_encryption :: int
  compression_level :: int
  entries_per_sec :: real
  write_amplification :: real
  avg_latency_ms :: real
  logical_throughput_gib_sec :: real

text \<open>A row of the frame after \<open>load_gdpr_data\<close>: the three label columns are added;
  \<open>None\<close> is the missing value (NaN) that \<open>Series.map\<close> gives a key outside its dict.\<close>

record labelled_record = benchmark_record +
  encryption_label :: "string option"
  compression_label :: "string option"
  entry_size_label :: "string option"

text \<open>
  A DataFrame is its header and its rows. The header lists which of the columns above the
  table has (a CSV file may lack some; columns the script never reads are left out).
  A row's field for a column the header lacks is never read: every access goes through
  the header check below, which is pandas' \<open>KeyError\<close>.
\<close>

datatype 'r frame = Frame (header: "column list") (rows: "'r list")

datatype error = KeyError column | IndexError | ValueError | FileNotFoundError | ParserError

fun dim_val :: "dim \<Rightarrow> 'a benchmark_record_scheme \<Rightarrow> int" where
  "dim_val Batch_size r = batch_size r"
| "dim_val Entry_size_bytes r = entry_size_bytes r"
| "dim_val Consumers r = consumers r"
| "dim_val Use_encryption r = use_encryption r"
| "dim_val Compression_level r = compression_level r"

fun metric_val :: "metric \<Rightarrow> 'a benchmark_record_scheme \<Rightarrow> real" where
  "metric_val Entries_per_sec r = entries_per_sec r"
| "metric_val Write_amplification r = write_amplification r"
| "metric_val Avg_latency_ms r = avg_latency_ms r"
| "metric_val Logical_throughput_gib_sec r = logical_throughput_gib_sec r"

subsection \<open>Exceptions as values\<close>

text \<open>\<open>Inl e\<close> is a raised exception; \<open>ebind\<close> is statement sequencing under it and
  \<open>emap\<close> a \<open>for\<close> loop (or comprehension) whose body may raise.\<close>

definition ebind :: "error + 'a \<Rightarrow> ('a \<Rightarrow> error + 'b) \<Rightarrow> error + 'b" where
  "ebind m f = (case m of Inl e \<Rightarrow> Inl e | Inr x \<Rightarrow> f x)"

fun emap :: "('a \<Rightarrow> error + 'b) \<Rightarrow> 'a list \<Rightarrow> error + 'b list" where
  "emap f [] = Inr []"
| "emap f (x # xs) = ebind (f x) (\<lambda>y. ebind (emap f xs) (\<lambda>ys. Inr (y # ys)))"

definition py_index :: "'a list \<Rightarrow> nat \<Rightarrow> error + 'a" where
  "py_index xs i = (if i < length xs then Inr (xs ! i) else Inl IndexError)"

subsection \<open>The pandas operations the script uses\<close>

text \<open>\<open>df[c]\<close> for a parameter column \<open>c\<close>.\<close>

definition dim_column :: "dim \<Rightarrow> ('a benchmark_record_scheme) frame \<Rightarrow> error + int list" where
  "dim_column d df =
     (if Dim d \<in> set (header df) then Inr (map (dim_val d) (rows df)) else Inl (KeyError (Dim d)))"

text \<open>\<open>sorted(df[c].unique())\<close>.\<close>

definition unique_sorted :: "dim \<Rightarrow> ('a benchmark_record_scheme) frame \<Rightarrow> error + int list" where
  "unique_sorted d df = ebind (dim_column d df) (\<lambda>xs. Inr (sort (remdups xs)))"

text \<open>\<open>df[df[c] == v]\<close>.\<close>

definition filter_eq :: "dim \<Rightarrow> int \<Rightarrow> ('a benchmark_record_scheme) frame
    \<Rightarrow> error + ('a benchmark_record_scheme) frame" where
  "filter_eq d v df =
     (if Dim d \<in> set (header df)
      then Inr (Frame (header df) (filter (\<lambda>r. dim_val d r = v) (rows df)))
      else Inl (KeyError (Dim d)))"

text \<open>\<open>df[(df[c1] == v1) & (df[c2] == v2)]\<close>: the left mask is evaluated first.\<close>

definition filter_eq2 :: "dim \<Rightarrow> int \<Rightarrow> dim \<Rightarrow> int \<Rightarrow> ('a benchmark_record_scheme) frame
    \<Rightarrow> error + ('a benchmark_record_scheme) frame" where
  "filter_eq2 d1 v1 d2 v2 df =
     (if Dim d1 \<notin> set (header df) then Inl (KeyError (Dim d1))
      else if Dim d2 \<notin> set (header df) then Inl (KeyError (Dim d2))
      else Inr (Frame (header df)
             (filter (\<lambda>r. dim_val d1 r = v1 \<and> dim_val d2 r = v2) (rows df))))"

text \<open>\<open>df.empty\<close> (the script only asks it of frames that have columns).\<close>

definition empty :: "'r frame \<Rightarrow> bool" where
  "empty df = (rows df = [])"

text \<open>
  \<open>df.groupby(c)[m].mean()\<close>. The groups are accumulated row by row, each with the
  running sum and count of the metric, and kept in ascending key order (groupby sorts its
  keys); the mean of a group is its sum over its count. The result is a Series: its index
  (the keys) with its values, in index order.
\<close>

type_synonym series = "(int \<times> real) list"

fun add_to_group :: "'k::linorder \<Rightarrow> real \<Rightarrow> ('k \<times> real \<times> nat) list \<Rightarrow> ('k \<times> real \<times> nat) list" where
  "add_to_group k v [] = [(k, v, 1)]"
| "add_to_group k v ((k', s, n) # gs) =
     (if k = k' then (k', s + v, Suc n) # gs
      else if k < k' then (k, v, 1) # (k', s, n) # gs
      else (k', s, n) # add_to_group k v gs)"

definition group_sums :: "('r \<Rightarrow> 'k::linorder) \<Rightarrow> ('r \<Rightarrow> real) \<Rightarrow> 'r list
    \<Rightarrow> ('k \<times> real \<times> nat) list" where
  "group_sums key val rs = fold (\<lambda>r gs. add_to_group (key r) (val r) gs) rs []"

definition group_means :: "('k \<times> real \<times> nat) list \<Rightarrow> ('k \<times> real) list" where
  "group_means gs = map (\<lambda>(k, s, n). (k, s / real n)) gs"

definition groupby_mean :: "dim \<Rightarrow> metric \<Rightarrow> ('a benchmark_record_scheme) frame \<Rightarrow> error + series" where
  "groupby_mean d m df =
     (if Dim d \<notin> set (header df) then Inl (KeyError (Dim d))
      else if Metric m \<notin> set (header df) then Inl (KeyError (Metric m))
      else Inr (group_means (group_sums (dim_val d) (metric_val m) (rows df))))"

text \<open>\<open>data.index\<close>, \<open>data.values\<close>, \<open>k in data.index\<close> and \<open>data[k]\<close> of a Series.\<close>

definition index :: "series \<Rightarrow> int list" where
  "index data = map fst data"

definition values_of :: "series \<Rightarrow> real list" where
  "values_of data = map snd data"


text \<open>\<open>[f(data[k]) if k in data.index else dflt for k in keys]\<close>, the lookup with an
  explicit fallback that the bar and line charts repeat.\<close>

definition fallback_values :: "(real \<Rightarrow> real) \<Rightarrow> real \<Rightarrow> series \<Rightarrow> int list \<Rightarrow> real list" where
  "fallback_values f dflt data keys =
     map (\<lambda>k. case map_of data k of Some v \<Rightarrow> f v | None \<Rightarrow> dflt) keys"

text \<open>
  \<open>df.groupby([a, b])[m].mean().unstack()\<close>: the means by pair of keys, laid out as a
  table with the observed values of \<open>a\<close> as index, those of \<open>b\<close> as columns, and a
  missing cell (\<open>None\<close>, pandas' NaN) where no row has the pair.
\<close>

datatype pivot = Pivot (pindex: "int list") (pcolumns: "int list") (cells: "real option list list")

definition unstack :: "((int \<times> int) \<times> real) list \<Rightarrow> pivot" where
  "unstack data =
     (let idx = sort (remdups (map (fst \<circ> fst) data));
          cols = sort (remdups (map (snd \<circ> fst) data))
      in Pivot idx cols (map (\<lambda>i. map (\<lambda>c. map_of data (i, c)) cols) idx))"

definition groupby2_mean_unstack :: "dim \<Rightarrow> dim \<Rightarrow> metric \<Rightarrow> ('a benchmark_record_scheme) frame
    \<Rightarrow> error + pivot" where
  "groupby2_mean_unstack a b m df =
     (if Dim a \<notin> set (header df) then Inl (KeyError (Dim a))
      else if Dim b \<notin> set (header df) then Inl (KeyError (Dim b))
      else if Metric m \<notin> set (header df) then Inl (KeyError (Metric m))
      else Inr (unstack (group_means
             (group_sums (\<lambda>r. (dim_val a r, dim_val b r)) (metric_val m) (rows df)))))"

definition pivot_scale :: "(real \<Rightarrow> real) \<Rightarrow> pivot \<Rightarrow> pivot" where
  "pivot_scale f p = Pivot (pindex p) (pcolumns p) (map (map (map_option f)) (cells p))"

subsection \<open>What is handed to the plotting library\<close>

text \<open>
  Rendering is matplotlib's and seaborn's business. A figure is modelled by the data it is
  given: per subplot the list of group keys laid out along the x axis (the source's
  \<open>batch_sizes\<close>, \<open>entry_sizes\<close>, \<open>comp_levels\<close>, \<open>consumers_list\<close>,
  \<open>encryption_settings\<close>) and the \<open>bar\<close>, \<open>plot\<close> and \<open>heatmap\<close> calls in order.
  Titles, colours, fonts and legends are left out. A formatted string is the list of its
  literal and formatted parts.
\<close>

datatype piece = Txt string | Num int | Nums "int list"

type_synonym label = "piece list"

text \<open>numpy's float division of two integers: dividing by zero gives an infinity or NaN
  (with a warning), not an exception.\<close>

datatype np_float = Finite real | PosInf | NegInf | NaN

definition np_true_divide :: "int \<Rightarrow> int \<Rightarrow> np_float" where
  "np_true_divide a b =
     (if b \<noteq> 0 then Finite (real_of_int a / real_of_int b)
      else if 0 < a then PosInf else if a < 0 then NegInf else NaN)"

datatype draw =
    Bar "real list" "real list" label string
  | Line "real list" "real list" label
  | IdealLine "real list" "np_float list" label
  | Heatmap pivot

record axes =
  xkeys :: "int list"
  draws :: "draw list"

type_synonym figure = "axes list"

definition hatches :: "string list" where
  "hatches = ['''', ''///'', [CHR 0x5C, CHR 0x5C, CHR 0x5C], ''xxx'', ''...'', ''+++'', ''|||'',
     ''---'', ''ooo'', ''***'']"

definition arange :: "nat \<Rightarrow> real list" where
  "arange n = map real [0..<n]"

text \<open>\<open>ax.bar(x, height, ...)\<close>: matplotlib broadcasts \<open>x\<close> and \<open>height\<close> against
  each other and raises \<open>ValueError\<close> (shape mismatch) when their lengths differ and
  neither is 1.\<close>

definition bar :: "real list \<Rightarrow> real list \<Rightarrow> label \<Rightarrow> string \<Rightarrow> error + draw" where
  "bar x height lab hatch =
     (if length x = length height \<or> length x = 1 \<or> length height = 1
      then Inr (Bar x height lab hatch) else Inl ValueError)"

text \<open>\<open>sns.heatmap(pivot_data, annot=True, ...)\<close>: the colour range is the minimum and
  maximum of the data, which numpy refuses to take of an empty table.\<close>

definition heatmap :: "pivot \<Rightarrow> error + axes" where
  "heatmap p =
     (if pindex p = [] \<or> pcolumns p = [] then Inl ValueError
      else Inr \<lparr>xkeys = pcolumns p, draws = [Heatmap p]\<rparr>)"

subsection \<open>Files and console\<close>

datatype fmt = PNG | PDF

datatype file_content = Csv "benchmark_record frame" | Image fmt figure | Other

text \<open>The world the script runs in: the lines printed so far and the files by path.
  Directories, permissions and I/O failures of writes are not modelled, so
  \<open>os.makedirs(output_dir, exist_ok=True)\<close> changes nothing here.\<close>

record world =
  console :: "label list"
  files :: "string \<rightharpoonup> file_content"

definition print_line :: "label \<Rightarrow> world \<Rightarrow> world" where
  "print_line l w = w\<lparr>console := console w @ [l]\<rparr>"

definition path_join :: "string \<Rightarrow> string \<Rightarrow> string" where
  "path_join d n = (if d = [] then n else if last d = CHR ''/'' then d @ n else d @ ''/'' @ n)"

definition savefig :: "string \<Rightarrow> fmt \<Rightarrow> figure \<Rightarrow> world \<Rightarrow> world" where
  "savefig path f fig w = w\<lparr>files := (files w)(path \<mapsto> Image f fig)\<rparr>"

text \<open>The two \<open>plt.savefig\<close> calls that end every view.\<close>

definition save_both :: "string \<Rightarrow> string \<Rightarrow> figure \<Rightarrow> world \<Rightarrow> world" where
  "save_both output_dir name fig w =
     savefig (path_join output_dir (name @ ''.pdf'')) PDF fig
       (savefig (path_join output_dir (name @ ''.png'')) PNG fig w)"

text \<open>\<open>pd.read_csv\<close>: parsing is the library's; the file system holds, for a well-formed
  CSV file, the table it parses to.\<close>

definition read_csv :: "string \<Rightarrow> (string \<rightharpoonup> file_content) \<Rightarrow> error + benchmark_record frame" where
  "read_csv input_file fs =
     (case fs input_file of
        None \<Rightarrow> Inl FileNotFoundError
      | Some (Csv t) \<Rightarrow> Inr t
      | Some _ \<Rightarrow> Inl ParserError)"

section \<open>load_gdpr_data\<close>

definition encryption_map :: "int \<rightharpoonup> string" where
  "encryption_map = [0 \<mapsto> ''No Encryption'', 1 \<mapsto> ''With Encryption'']"

definition compression_map :: "int \<rightharpoonup> string" where
  "compression_map = [0 \<mapsto> ''No Compression'', 5 \<mapsto> ''Medium (5)'', 9 \<mapsto> ''High (9)'']"

definition entry_size_map :: "int \<rightharpoonup> string" where
  "entry_size_map = [1024 \<mapsto> ''1KB'', 2048 \<mapsto> ''2KB'', 4096 \<mapsto> ''4KB'']"

definition add_labels :: "benchmark_record \<Rightarrow> labelled_record" where
  "add_labels r =
     \<lparr>batch_size = batch_size r, entry_size_bytes = entry_size_bytes r,
      consumers = consumers r, use_encryption = use_encryption r,
      compression_level = compression_level r, entries_per_sec = entries_per_sec r,
      write_amplification = write_amplification r, avg_latency_ms = avg_latency_ms r,
      logical_throughput_gib_sec = logical_throughput_gib_sec r,
      encryption_label = encryption_map (use_encryption r),
      compression_label = compression_map (compression_level r),
      entry_size_label = entry_size_map (entry_size_bytes r)\<rparr>"

text \<open>The three assignments read \<open>use_encryption\<close>, \<open>compression_level\<close> and
  \<open>entry_size_bytes\<close> in this order; no other column is touched.\<close>

definition load_gdpr_data :: "string \<Rightarrow> (string \<rightharpoonup> file_content) \<Rightarrow> error + labelled_record frame" where
  "load_gdpr_data input_file fs =
     ebind (read_csv input_file fs) (\<lambda>df.
     ebind (dim_column Use_encryption df) (\<lambda>_.
     ebind (dim_column Compression_level df) (\<lambda>_.
     ebind (dim_column Entry_size_bytes df) (\<lambda>_.
     Inr (Frame (header df @ [Label Encryption_label, Label Compression_label,
                              Label Entry_size_label])
            (map add_labels (rows df)))))))"

section \<open>The seven views\<close>

text \<open>A view runs in the world and either finishes or raises; the world is returned in
  both cases, so that what a failed run left behind can be stated.\<close>

type_synonym df = "labelled_record frame"

type_synonym action = "world \<Rightarrow> error option \<times> world"

text \<open>Every view draws its whole figure before its first \<open>savefig\<close>: an exception while
  drawing leaves the world as it was.\<close>

definition emit :: "error + figure \<Rightarrow> string \<Rightarrow> string \<Rightarrow> action" where
  "emit fig output_dir name w =
     (case fig of Inl e \<Rightarrow> (Some e, w) | Inr f \<Rightarrow> (None, save_both output_dir name f w))"

subsection \<open>create_encryption_effect_plots\<close>

text \<open>
  The four subplots share one shape: the axis keys are the sorted distinct values of the
  key column in the whole frame, and the two bar series are the \<open>.values\<close> of the group
  means of the rows without and with encryption, passed to \<open>ax.bar\<close> as they are.
\<close>

definition encryption_axes :: "dim \<Rightarrow> metric \<Rightarrow> (real \<Rightarrow> real) \<Rightarrow> df \<Rightarrow> error + axes" where
  "encryption_axes kd m f df =
     ebind (unique_sorted kd df) (\<lambda>keys.
     ebind (filter_eq Use_encryption 0 df) (\<lambda>df0.
     ebind (groupby_mean kd m df0) (\<lambda>no_enc.
     ebind (filter_eq Use_encryption 1 df) (\<lambda>df1.
     ebind (groupby_mean kd m df1) (\<lambda>with_enc.
     ebind (py_index hatches 0) (\<lambda>h0.
     ebind (bar (map (\<lambda>x. x - 0.35 / 2) (arange (length keys)))
                (map f (values_of no_enc)) [Txt ''No Encryption''] h0) (\<lambda>b0.
     ebind (py_index hatches 1) (\<lambda>h1.
     ebind (bar (map (\<lambda>x. x + 0.35 / 2) (arange (length keys)))
                (map f (values_of with_enc)) [Txt ''With Encryption''] h1) (\<lambda>b1.
     Inr \<lparr>xkeys = keys, draws = [b0, b1]\<rparr>)))))))))"

definition encryption_effect_figure :: "df \<Rightarrow> error + figure" where
  "encryption_effect_figure df =
     ebind (encryption_axes Batch_size Entries_per_sec (\<lambda>v. v / 1000) df) (\<lambda>a1.
     ebind (encryption_axes Entry_size_bytes Entries_per_sec (\<lambda>v. v / 1000) df) (\<lambda>a2.
     ebind (encryption_axes Compression_level Write_amplification (\<lambda>v. v) df) (\<lambda>a3.
     ebind (encryption_axes Consumers Entries_per_sec (\<lambda>v. v / 1000) df) (\<lambda>a4.
     Inr [a1, a2, a3, a4]))))"

definition create_encryption_effect_plots :: "df \<Rightarrow> string \<Rightarrow> action" where
  "create_encryption_effect_plots df output_dir =
     emit (encryption_effect_figure df) output_dir ''encryption_effect''"

subsection \<open>Grouped bars and lines with a fallback\<close>

text \<open>
  \<open>for i, s in enumerate(svals): data = df[df[sd] == s].groupby(kd)[m].mean();
  vals = [f(data[k]) if k in data.index else dflt for k in keys];
  ax.bar(x_positions + i*width, vals, width, label=lab(s), ..., hatch=hatches[i])\<close>
  with \<open>width = 0.25\<close>. The list \<open>hatches\<close> has ten entries.
\<close>

definition fallback_bars :: "dim \<Rightarrow> int list \<Rightarrow> (int \<Rightarrow> label) \<Rightarrow> dim \<Rightarrow> metric \<Rightarrow> (real \<Rightarrow> real)
    \<Rightarrow> real \<Rightarrow> int list \<Rightarrow> df \<Rightarrow> error + axes" where
  "fallback_bars sd svals lab kd m f dflt keys df =
     ebind (emap (\<lambda>(i, s).
              ebind (filter_eq sd s df) (\<lambda>sub.
              ebind (groupby_mean kd m sub) (\<lambda>data.
              ebind (py_index hatches i) (\<lambda>hatch.
              bar (map (\<lambda>x. x + real i * 0.25) (arange (length keys)))
                  (fallback_values f dflt data keys) (lab s) hatch))))
            (enumerate 0 svals))
       (\<lambda>bars. Inr \<lparr>xkeys = keys, draws = bars\<rparr>)"

text \<open>The same loop ending in \<open>ax.plot(keys, vals, ..., label=lab(s))\<close>.\<close>

definition fallback_lines :: "dim \<Rightarrow> int list \<Rightarrow> (int \<Rightarrow> label) \<Rightarrow> dim \<Rightarrow> metric \<Rightarrow> (real \<Rightarrow> real)
    \<Rightarrow> real \<Rightarrow> int list \<Rightarrow> df \<Rightarrow> error + axes" where
  "fallback_lines sd svals lab kd m f dflt keys df =
     ebind (emap (\<lambda>s.
              ebind (filter_eq sd s df) (\<lambda>sub.
              ebind (groupby_mean kd m sub) (\<lambda>data.
              Inr (Line (map real_of_int keys) (fallback_values f dflt data keys) (lab s)))))
            svals)
       (\<lambda>lines. Inr \<lparr>xkeys = keys, draws = lines\<rparr>)"

text \<open>
  \<open>for i, (enc, comp) in enumerate(combinations):
  subset = df[(df['use_encryption'] == enc) & (df['compression_level'] == comp)];
  if not subset.empty: data = subset.groupby(kd)[m].mean(); ...; ax.plot(keys, vals,
  label=labels[i])\<close>. The combinations come paired with their labels.
\<close>

definition combination_lines :: "((int \<times> int) \<times> string) list \<Rightarrow> dim \<Rightarrow> metric \<Rightarrow> (real \<Rightarrow> real)
    \<Rightarrow> real \<Rightarrow> int list \<Rightarrow> df \<Rightarrow> error + axes" where
  "combination_lines combs kd m f dflt keys df =
     ebind (emap (\<lambda>((enc, comp), lab).
              ebind (filter_eq2 Use_encryption enc Compression_level comp df) (\<lambda>subset.
              if empty subset then Inr []
              else ebind (groupby_mean kd m subset) (\<lambda>data.
                   Inr [Line (map real_of_int keys) (fallback_values f dflt data keys)
                          [Txt lab]])))
            combs)
       (\<lambda>lines. Inr \<lparr>xkeys = keys, draws = concat lines\<rparr>)"

definition kb_label :: "int \<Rightarrow> label" where
  "kb_label entry_size = [Num (entry_size div 1024), Txt ''KB'']"

definition encryption_settings :: "int list" where
  "encryption_settings = [0, 1]"

subsection \<open>create_compression_effect_plots\<close>

definition compression_label_of :: "int \<Rightarrow> label" where
  "compression_label_of comp_level = [Txt ''Compression '', Num comp_level]"

definition compression_effect_figure :: "df \<Rightarrow> error + figure" where
  "compression_effect_figure df =
     ebind (unique_sorted Compression_level df) (\<lambda>compression_levels.
     ebind (unique_sorted Batch_size df) (\<lambda>batch_sizes.
     ebind (fallback_bars Compression_level compression_levels compression_label_of
              Batch_size Entries_per_sec (\<lambda>v. v / 1000) 0 batch_sizes df) (\<lambda>a1.
     ebind (unique_sorted Entry_size_bytes df) (\<lambda>entry_sizes.
     ebind (fallback_bars Compression_level compression_levels compression_label_of
              Entry_size_bytes Entries_per_sec (\<lambda>v. v / 1000) 0 entry_sizes df) (\<lambda>a2.
     ebind (fallback_bars Compression_level compression_levels compression_label_of
              Use_encryption Write_amplification (\<lambda>v. v) 1.0 encryption_settings df) (\<lambda>a3.
     ebind (unique_sorted Consumers df) (\<lambda>consumers_list.
     ebind (fallback_bars Compression_level compression_levels compression_label_of
              Consumers Write_amplification (\<lambda>v. v) 1.0 consumers_list df) (\<lambda>a4.
     Inr [a1, a2, a3, a4]))))))))"

definition create_compression_effect_plots :: "df \<Rightarrow> string \<Rightarrow> action" where
  "create_compression_effect_plots df output_dir =
     emit (compression_effect_figure df) output_dir ''compression_effect''"

subsection \<open>create_entry_size_effect_plots\<close>

definition entry_size_effect_figure :: "df \<Rightarrow> error + figure" where
  "entry_size_effect_figure df =
     ebind (unique_sorted Entry_size_bytes df) (\<lambda>entry_sizes.
     ebind (unique_sorted Batch_size df) (\<lambda>batch_sizes.
     ebind (fallback_bars Entry_size_bytes entry_sizes kb_label
              Batch_size Entries_per_sec (\<lambda>v. v / 1000) 0 batch_sizes df) (\<lambda>a1.
     ebind (unique_sorted Compression_level df) (\<lambda>comp_levels.
     ebind (fallback_bars Entry_size_bytes entry_sizes kb_label
              Compression_level Logical_throughput_gib_sec (\<lambda>v. v) 0 comp_levels df) (\<lambda>a2.
     ebind (fallback_bars Entry_size_bytes entry_sizes kb_label
              Use_encryption Entries_per_sec (\<lambda>v. v / 1000) 0 encryption_settings df) (\<lambda>a3.
     ebind (unique_sorted Consumers df) (\<lambda>consumers_list.
     ebind (fallback_bars Entry_size_bytes entry_sizes kb_label
              Consumers Entries_per_sec (\<lambda>v. v / 1000) 0 consumers_list df) (\<lambda>a4.
     Inr [a1, a2, a3, a4]))))))))"

definition create_entry_size_effect_plots :: "df \<Rightarrow> string \<Rightarrow> action" where
  "create_entry_size_effect_plots df output_dir =
     emit (entry_size_effect_figure df) output_dir ''entry_size_effect''"

subsection \<open>create_writer_threads_effect_plots\<close>

definition batch_label :: "int \<Rightarrow> label" where
  "batch_label bs = [Txt ''Batch '', Num bs]"

definition enc_comp_combinations :: "((int \<times> int) \<times> string) list" where
  "enc_comp_combinations =
     [((0, 0), ''No Enc, No Comp''), ((0, 9), ''No Enc, High Comp''),
      ((1, 0), ''Enc, No Comp''), ((1, 9), ''Enc, High Comp'')]"

text \<open>
  One round of the scaling-efficiency loop: the series of an entry size is drawn only
  under the guard \<open>consumers_list[0] in data.index and data[consumers_list[0]] > 0\<close>.
\<close>

definition scaling_line :: "int list \<Rightarrow> df \<Rightarrow> int \<Rightarrow> error + draw list" where
  "scaling_line consumers_list df entry_size =
     ebind (filter_eq Entry_size_bytes entry_size df) (\<lambda>sub.
     ebind (groupby_mean Consumers Entries_per_sec sub) (\<lambda>data.
     ebind (py_index consumers_list 0) (\<lambda>c0.
     case map_of data c0 of
       None \<Rightarrow> Inr []
     | Some baseline \<Rightarrow>
         if baseline > 0
         then Inr [Line (map real_of_int consumers_list)
                     (fallback_values (\<lambda>v. v / baseline) 0 data consumers_list)
                     (kb_label entry_size)]
         else Inr [])))"

text \<open>\<open>[c/consumers_list[0] for c in consumers_list]\<close>: the head is only read when the
  list has an element.\<close>

definition ideal_scaling :: "int list \<Rightarrow> np_float list" where
  "ideal_scaling consumers_list =
     (case consumers_list of [] \<Rightarrow> [] | c0 # _ \<Rightarrow> map (\<lambda>c. np_true_divide c c0) consumers_list)"

definition scaling_axes :: "int list \<Rightarrow> df \<Rightarrow> error + axes" where
  "scaling_axes consumers_list df =
     ebind (unique_sorted Entry_size_bytes df) (\<lambda>entry_sizes.
     ebind (emap (scaling_line consumers_list df) entry_sizes) (\<lambda>lines.
     Inr \<lparr>xkeys = consumers_list,
          draws = concat lines @
            [IdealLine (map real_of_int consumers_list) (ideal_scaling consumers_list)
               [Txt ''Ideal Scaling'']]\<rparr>))"

definition writer_threads_effect_figure :: "df \<Rightarrow> error + figure" where
  "writer_threads_effect_figure df =
     ebind (unique_sorted Consumers df) (\<lambda>consumers_list.
     ebind (unique_sorted Batch_size df) (\<lambda>batch_sizes.
     ebind (fallback_lines Batch_size batch_sizes batch_label
              Consumers Entries_per_sec (\<lambda>v. v / 1000) 0 consumers_list df) (\<lambda>a1.
     ebind (combination_lines enc_comp_combinations
              Consumers Entries_per_sec (\<lambda>v. v / 1000) 0 consumers_list df) (\<lambda>a2.
     ebind (scaling_axes consumers_list df) (\<lambda>a3.
     ebind (combination_lines enc_comp_combinations
              Consumers Avg_latency_ms (\<lambda>v. v) 0 consumers_list df) (\<lambda>a4.
     Inr [a1, a2, a3, a4]))))))"

definition create_writer_threads_effect_plots :: "df \<Rightarrow> string \<Rightarrow> action" where
  "create_writer_threads_effect_plots df output_dir =
     emit (writer_threads_effect_figure df) output_dir ''writer_threads_effect''"

subsection \<open>create_batch_size_effect_plots\<close>

definition enc_comp_combinations6 :: "((int \<times> int) \<times> string) list" where
  "enc_comp_combinations6 =
     [((0, 0), ''No Enc, No Comp''), ((0, 5), ''No Enc, Med Comp''),
      ((0, 9), ''No Enc, High Comp''), ((1, 0), ''Enc, No Comp''),
      ((1, 5), ''Enc, Med Comp''), ((1, 9), ''Enc, High Comp'')]"

definition selected_combinations :: "((int \<times> int) \<times> string) list" where
  "selected_combinations =
     [((0, 0), ''No Enc, No Comp''), ((1, 0), ''Enc, No Comp''),
      ((0, 9), ''No Enc, High Comp''), ((1, 9), ''Enc, High Comp'')]"

definition writers_label :: "int \<Rightarrow> label" where
  "writers_label c = [Num c, Txt '' Writers'']"

definition batch_size_effect_figure :: "df \<Rightarrow> error + figure" where
  "batch_size_effect_figure df =
     ebind (unique_sorted Batch_size df) (\<lambda>batch_sizes.
     ebind (combination_lines enc_comp_combinations6
              Batch_size Entries_per_sec (\<lambda>v. v / 1000) 0 batch_sizes df) (\<lambda>a1.
     ebind (unique_sorted Entry_size_bytes df) (\<lambda>entry_sizes.
     ebind (fallback_lines Entry_size_bytes entry_sizes kb_label
              Batch_size Entries_per_sec (\<lambda>v. v / 1000) 0 batch_sizes df) (\<lambda>a2.
     ebind (unique_sorted Consumers df) (\<lambda>consumers_list.
     ebind (fallback_lines Consumers consumers_list writers_label
              Batch_size Avg_latency_ms (\<lambda>v. v) 0 batch_sizes df) (\<lambda>a3.
     ebind (combination_lines selected_combinations
              Batch_size Write_amplification (\<lambda>v. v) 1.0 batch_sizes df) (\<lambda>a4.
     Inr [a1, a2, a3, a4])))))))"

definition create_batch_size_effect_plots :: "df \<Rightarrow> string \<Rightarrow> action" where
  "create_batch_size_effect_plots df output_dir =
     emit (batch_size_effect_figure df) output_dir ''batch_size_effect''"

subsection \<open>create_heatmaps\<close>

definition heatmaps_figure :: "df \<Rightarrow> error + figure" where
  "heatmaps_figure df =
     ebind (groupby2_mean_unstack Batch_size Compression_level Entries_per_sec df) (\<lambda>p1.
     ebind (heatmap (pivot_scale (\<lambda>v. v / 1000) p1)) (\<lambda>a1.
     ebind (groupby2_mean_unstack Entry_size_bytes Use_encryption Write_amplification df) (\<lambda>p2.
     ebind (heatmap p2) (\<lambda>a2.
     ebind (groupby2_mean_unstack Consumers Entry_size_bytes Entries_per_sec df) (\<lambda>p3.
     ebind (heatmap (pivot_scale (\<lambda>v. v / 1000) p3)) (\<lambda>a3.
     ebind (groupby2_mean_unstack Batch_size Consumers Avg_latency_ms df) (\<lambda>p4.
     ebind (heatmap p4) (\<lambda>a4.
     Inr [a1, a2, a3, a4]))))))))"

definition create_heatmaps :: "df \<Rightarrow> string \<Rightarrow> action" where
  "create_heatmaps df output_dir = emit (heatmaps_figure df) output_dir ''heatmaps''"

subsection \<open>create_encryption_batch_analysis_plot\<close>

definition variants :: "((int \<times> int) \<times> string) list" where
  "variants =
     [((4, 256), ''4 Writers, 256B Entry''), ((8, 256), ''8 Writers, 256B Entry''),
      ((4, 1024), ''4 Writers, 1KB Entry''), ((8, 1024), ''8 Writers, 1KB Entry''),
      ((4, 4096), ''4 Writers, 4KB Entry''), ((8, 4096), ''8 Writers, 4KB Entry'')]"

text \<open>
  \<open>for i, bs in enumerate(batch_sizes): if bs in data.index:
  x_vals.append(x_positions[i]); y_vals.append(f(data[bs]))\<close>, where
  \<open>x_positions = list(range(1, len(batch_sizes) + 1))\<close>, so \<open>x_positions[i] = i + 1\<close>.
  A batch size the variant has no row for gets no point.
\<close>

fun present_points :: "(real \<Rightarrow> real) \<Rightarrow> series \<Rightarrow> (nat \<times> int) list \<Rightarrow> (real \<times> real) list" where
  "present_points f data [] = []"
| "present_points f data ((i, bs) # rest) =
     (case map_of data bs of
        Some v \<Rightarrow> (real (i + 1), f v) # present_points f data rest
      | None \<Rightarrow> present_points f data rest)"

definition variant_lines :: "(real \<Rightarrow> real) \<Rightarrow> metric \<Rightarrow> int list \<Rightarrow> df \<Rightarrow> error + axes" where
  "variant_lines f m batch_sizes filtered_df =
     ebind (emap (\<lambda>((c, e), lab).
              ebind (filter_eq2 Consumers c Entry_size_bytes e filtered_df) (\<lambda>variant_df.
              if empty variant_df then Inr []
              else ebind (groupby_mean Batch_size m variant_df) (\<lambda>data.
                   let pts = present_points f data (enumerate 0 batch_sizes)
                   in Inr [Line (map fst pts) (map snd pts) [Txt lab]])))
            variants)
       (\<lambda>lines. Inr \<lparr>xkeys = batch_sizes, draws = concat lines\<rparr>)"

text \<open>Left: throughput in thousands of entries per second. Right: write amplification
  as a percentage, \<open>(wa_data[bs] - 1) * 100\<close>.\<close>

definition batch_analysis_figure :: "df \<Rightarrow> error + figure" where
  "batch_analysis_figure filtered_df =
     ebind (unique_sorted Batch_size filtered_df) (\<lambda>batch_sizes.
     ebind (variant_lines (\<lambda>v. v / 1000) Entries_per_sec batch_sizes filtered_df) (\<lambda>left.
     ebind (variant_lines (\<lambda>v. (v - 1) * 100) Write_amplification batch_sizes filtered_df)
       (\<lambda>right.
     Inr [left, right])))"

fun print_variants :: "((int \<times> int) \<times> string) list \<Rightarrow> df \<Rightarrow> action" where
  "print_variants [] filtered_df w = (None, w)"
| "print_variants (((c, e), lab) # vs) filtered_df w =
     (case filter_eq2 Consumers c Entry_size_bytes e filtered_df of
        Inl er \<Rightarrow> (Some er, w)
      | Inr variant_df \<Rightarrow>
          print_variants vs filtered_df
            (print_line [Txt ''  - '', Txt lab, Txt '': '', Num (int (length (rows variant_df))),
               Txt '' data points''] w))"

definition create_encryption_batch_analysis_plot :: "df \<Rightarrow> string \<Rightarrow> action" where
  "create_encryption_batch_analysis_plot df output_dir w =
     (case filter_eq2 Compression_level 0 Use_encryption 1 df of
        Inl e \<Rightarrow> (Some e, w)
      | Inr filtered_df \<Rightarrow>
          if empty filtered_df
          then (None, print_line [Txt ''No data found for compression=0 and encryption=1''] w)
          else
            (case batch_analysis_figure filtered_df of
               Inl e \<Rightarrow> (Some e, w)
             | Inr fig \<Rightarrow>
                 print_variants variants filtered_df
                   (print_line [Txt ''Generated batch analysis paper plot with '',
                        Num (int (length variants)), Txt '' variants:'']
                      (save_both output_dir ''batch_analysis'' fig w))))"

section \<open>main\<close>

text \<open>Statement sequencing of actions: an exception ends the run where it is raised
  (\<open>main\<close> has no \<open>try\<close>).\<close>

definition andthen :: "action \<Rightarrow> action \<Rightarrow> action" where
  "andthen f g w = (case f w of (None, w') \<Rightarrow> g w' | (Some e, w') \<Rightarrow> (Some e, w'))"

definition say :: "label \<Rightarrow> action" where
  "say l w = (None, print_line l w)"

text \<open>\<open>print(f"  - Batch sizes: {sorted(df['batch_size'].unique())}")\<close> and its like.\<close>

definition print_unique :: "string \<Rightarrow> dim \<Rightarrow> df \<Rightarrow> action" where
  "print_unique title d df w =
     (case unique_sorted d df of
        Inl e \<Rightarrow> (Some e, w)
      | Inr vs \<Rightarrow> (None, print_line [Txt title, Nums vs] w))"

definition data_summary :: "df \<Rightarrow> action" where
  "data_summary df =
     andthen (say [Txt ''Loaded '', Num (int (length (rows df))), Txt '' benchmark results''])
    (andthen (say [Txt ''Data summary:''])
    (andthen (print_unique ''  - Batch sizes: '' Batch_size df)
    (andthen (print_unique ''  - Entry sizes: '' Entry_size_bytes df)
    (andthen (print_unique ''  - Writer threads: '' Consumers df)
    (andthen (print_unique ''  - Encryption settings: '' Use_encryption df)
             (print_unique ''  - Compression levels: '' Compression_level df))))))"

definition generate_plots :: "df \<Rightarrow> string \<Rightarrow> action" where
  "generate_plots df output_dir =
     andthen (create_encryption_effect_plots df output_dir)
    (andthen (create_compression_effect_plots df output_dir)
    (andthen (create_entry_size_effect_plots df output_dir)
    (andthen (create_writer_threads_effect_plots df output_dir)
    (andthen (create_batch_size_effect_plots df output_dir)
    (andthen (create_heatmaps df output_dir)
             (create_encryption_batch_analysis_plot df output_dir))))))"

definition plots :: "(string \<times> string) list" where
  "plots =
     [(''encryption_effect.png'',
       ''4-panel analysis of encryption impact across: (a) batch sizes, (b) entry sizes, (c) write amplification vs compression, (d) writer threads. Shows encryption overhead in different scenarios.''),
      (''compression_effect.png'',
       ''4-panel analysis of compression impact across: (a) batch sizes, (b) entry sizes, (c) write amplification vs encryption, (d) writer threads. Shows compression efficiency tradeoffs.''),
      (''entry_size_effect.png'',
       ''4-panel analysis of entry size impact across: (a) batch sizes, (b) data throughput vs compression, (c) encryption settings, (d) writer threads. Shows size vs performance relationships.''),
      (''writer_threads_effect.png'',
       ''4-panel analysis of writer threads scaling: (a) throughput vs batch sizes, (b) throughput vs encryption/compression combinations, (c) scaling efficiency by entry size, (d) latency impact.''),
      (''batch_size_effect.png'',
       ''4-panel analysis of batch size impact: (a) throughput vs encryption/compression combinations, (b) throughput vs entry sizes, (c) latency vs writer threads, (d) write amplification trends.''),
      (''heatmaps.png'',
       ''4 heatmaps showing: (a) throughput vs batch size/compression, (b) write amplification vs entry size/encryption, (c) throughput vs writers/entry size, (d) latency vs batch size/writers.''),
      (''batch_analysis.png'',
       ''2-panel analysis of batch size impact (with encryption=ON and compression=OFF): (a) throughput vs batch size, (b) write amplification vs batch size.'')]"

definition rule70 :: string where
  "rule70 = replicate 70 (CHR ''='')"

definition newline :: string where
  "newline = [CHR 0x0A]"

definition plot_summary_lines :: "label list" where
  "plot_summary_lines =
     [[Txt (newline @ rule70)],
      [Txt ''GDPR LOGGER BENCHMARK ANALYSIS - PLOT SUMMARY''],
      [Txt rule70]] @
     concat (map (\<lambda>(i, (filename, description)).
                    [[Txt newline, Num (int i), Txt ''. '', Txt filename, Txt '':''],
                     [Txt ''   '', Txt description]])
                 (enumerate 1 plots)) @
     [[Txt newline, Txt rule70],
      [Txt ''KEY FEATURES:''],
      [Txt ''- Linear x-axis scales with actual values labeled''],
      [Txt ''- All parameter combinations shown for each main effect''],
      [Txt ''- Line plots for continuous relationships''],
      [Txt ''- Bar plots for categorical comparisons''],
      [Txt ''- Multiple heatmaps for interaction effects''],
      [Txt ''- Detailed legends and consistent color schemes''],
      [Txt rule70]]"

definition print_plot_summary :: action where
  "print_plot_summary w = (None, w\<lparr>console := console w @ plot_summary_lines\<rparr>)"

text \<open>
  \<open>main\<close> with its two command-line arguments. A result \<open>Some e\<close> is the uncaught
  exception that ends the process with a traceback and a non-zero exit status.
\<close>

definition main :: "string \<Rightarrow> string \<Rightarrow> action" where
  "main input_file output_dir w =
     (let w1 = print_line [Txt ''Loading data from '', Txt input_file, Txt ''...''] w
      in case load_gdpr_data input_file (files w1) of
           Inl e \<Rightarrow> (Some e, w1)
         | Inr df \<Rightarrow>
             andthen (data_summary df)
            (andthen (say [Txt ''Generating plots...''])
            (andthen (generate_plots df output_dir)
            (andthen (say [Txt ''All plots saved to '', Txt output_dir, Txt ''/''])
                     print_plot_summary))) w1)"

definition default_input_file :: string where
  "default_input_file = ''gdpr_logger_benchmark_results.csv''"

definition default_output_dir :: string where
  "default_output_dir = ''gdpr_plots''"

section \<open>Notions used in the statements and proofs\<close>

text \<open>The effect of a run of rows on the accumulated sum and count of one group.\<close>

definition merge_group :: "(real \<times> nat) option \<Rightarrow> real list \<Rightarrow> (real \<times> nat) option" where
  "merge_group g vs =
     (case g of
        None \<Rightarrow> (if vs = [] then None else Some (sum_list vs, length vs))
      | Some (s, n) \<Rightarrow> Some (s + sum_list vs, n + length vs))"

text \<open>Example data: the header with all nine columns, and the two rows of the
  example in the specification.\<close>

definition all_columns :: "column list" where
  "all_columns =
     [Dim Batch_size, Dim Entry_size_bytes, Dim Consumers, Dim Use_encryption,
      Dim Compression_level, Metric Entries_per_sec, Metric Write_amplification,
      Metric Avg_latency_ms, Metric Logical_throughput_gib_sec]"

definition spec_row :: "real \<Rightarrow> benchmark_record" where
  "spec_row eps =
     \<lparr>batch_size = 512, entry_size_bytes = 1024, consumers = 4, use_encryption = 1,
      compression_level = 0, entries_per_sec = eps, write_amplification = 1.2,
      avg_latency_ms = 3.5, logical_throughput_gib_sec = 0.05\<rparr>"

definition spec_example :: "benchmark_record frame" where
  "spec_example = Frame all_columns [spec_row 50000, spec_row 70000]"

definition unencrypted_row :: benchmark_record where
  "unencrypted_row =
     \<lparr>batch_size = 512, entry_size_bytes = 8192, consumers = 4, use_encryption = 0,
      compression_level = 0, entries_per_sec = 50000, write_amplification = 1.2,
      avg_latency_ms = 3.5, logical_throughput_gib_sec = 0.05\<rparr>"

definition unencrypted_fs :: "string \<rightharpoonup> file_content" where
  "unencrypted_fs = [''results.csv'' \<mapsto> Csv (Frame all_columns [unencrypted_row])]"

text \<open>An action is uniform when its exit status, the lines it prints and the files it
  writes do not depend on the world it starts in; \<open>P\<close> bounds the paths written.\<close>

definition uniform :: "string set \<Rightarrow> action \<Rightarrow> bool" where
  "uniform P a =
     (\<exists>r L W. dom W \<subseteq> P
        \<and> (\<forall>w. a w = (r, w\<lparr>console := console w @ L, files := files w ++ W\<rparr>)))"

definition output_paths :: "string \<Rightarrow> string list" where
  "output_paths output_dir =
     map (path_join output_dir)
       [''encryption_effect.png'', ''encryption_effect.pdf'',
        ''compression_effect.png'', ''compression_effect.pdf'',
        ''entry_size_effect.png'', ''entry_size_effect.pdf'',
        ''writer_threads_effect.png'', ''writer_threads_effect.pdf'',
        ''batch_size_effect.png'', ''batch_size_effect.pdf'',
        ''heatmaps.png'', ''heatmaps.pdf'',
        ''batch_analysis.png'', ''batch_analysis.pdf'']"

text \<open>The seven views in the order \<open>main\<close> calls them, and running a list of actions
  until one raises.\<close>

definition views :: "df \<Rightarrow> string \<Rightarrow> action list" where
  "views df output_dir =
     [create_encryption_effect_plots df output_dir,
      create_compression_effect_plots df output_dir,
      create_entry_size_effect_plots df output_dir,
      create_writer_threads_effect_plots df output_dir,
      create_batch_size_effect_plots df output_dir,
      create_heatmaps df output_dir,
      create_encryption_batch_analysis_plot df output_dir]"

fun run_all :: "action list \<Rightarrow> action" where
  "run_all [] = (\<lambda>w. (None, w))"
| "run_all (a # as) = andthen a (run_all as)"

text \<open>Everything \<open>main\<close> does once the data is loaded.\<close>

definition report :: "df \<Rightarrow> string \<Rightarrow> action" where
  "report df output_dir =
     andthen (data_summary df)
    (andthen (say [Txt ''Generating plots...''])
    (andthen (generate_plots df output_dir)
    (andthen (say [Txt ''All plots saved to '', Txt output_dir, Txt ''/''])
             print_plot_summary)))"

text \<open>The arithmetic mean of a metric over a list of rows.\<close>

definition mean_of :: "('r \<Rightarrow> real) \<Rightarrow> 'r list \<Rightarrow> real" where
  "mean_of val rs = sum_list (map val rs) / real (length rs)"

text \<open>The fallback of a chart by the metric it shows.\<close>

definition chart_default :: "metric \<Rightarrow> real" where
  "chart_default m = (if m = Write_amplification then 1.0 else 0)"

text \<open>The value a chart with a fallback shows for a key: the transformed group mean when
  some row has the key, the fallback otherwise.\<close>

definition plotted :: "(real \<Rightarrow> real) \<Rightarrow> real \<Rightarrow> dim \<Rightarrow> metric \<Rightarrow> ('a benchmark_record_scheme) list
    \<Rightarrow> int \<Rightarrow> real" where
  "plotted f dflt kd m rs k =
     (if k \<in> dim_val kd ` set rs
      then f (mean_of (metric_val m) (filter (\<lambda>r. dim_val kd r = k) rs))
      else dflt)"

text \<open>The sorted distinct values of a parameter observed in a list of rows.\<close>

definition observed :: "dim \<Rightarrow> ('a benchmark_record_scheme) list \<Rightarrow> int list" where
  "observed d rs = sorted_list_of_set (dim_val d ` set rs)"

text \<open>The y values of a bar or line series.\<close>

definition heights :: "draw \<Rightarrow> real list" where
  "heights dr = (case dr of Bar x h l ht \<Rightarrow> h | Line x y l \<Rightarrow> y | _ \<Rightarrow> [])"

text \<open>The line of one encryption/compression combination, absent when no row has it.\<close>

definition combination_line :: "dim \<Rightarrow> metric \<Rightarrow> (real \<Rightarrow> real) \<Rightarrow> real \<Rightarrow> int list
    \<Rightarrow> ('a benchmark_record_scheme) list \<Rightarrow> ((int \<times> int) \<times> string) \<Rightarrow> draw list" where
  "combination_line kd m f dflt keys rs c =
     (let sub = filter (\<lambda>r. use_encryption r = fst (fst c) \<and> compression_level r = snd (fst c)) rs
      in if sub = [] then []
         else [Line (map real_of_int keys) (map (plotted f dflt kd m sub) keys) [Txt (snd c)]])"

text \<open>The row keys (y axis) of a heatmap.\<close>

definition row_keys :: "axes \<Rightarrow> int list" where
  "row_keys a = (case draws a of [Heatmap p] \<Rightarrow> pindex p | _ \<Rightarrow> [])"

text \<open>The frame \<open>load_gdpr_data\<close> returns for a table.\<close>

definition labelled :: "benchmark_record frame \<Rightarrow> df" where
  "labelled t = Frame (header t @ [Label Encryption_label, Label Compression_label,
                                   Label Entry_size_label]) (map add_labels (rows t))"

text \<open>The lines of the data summary.\<close>

definition summary_lines :: "df \<Rightarrow> label list" where
  "summary_lines df =
     [[Txt ''Loaded '', Num (int (length (rows df))), Txt '' benchmark results''],
      [Txt ''Data summary:''],
      [Txt ''  - Batch sizes: '', Nums (observed Batch_size (rows df))],
      [Txt ''  - Entry sizes: '', Nums (observed Entry_size_bytes (rows df))],
      [Txt ''  - Writer threads: '', Nums (observed Consumers (rows df))],
      [Txt ''  - Encryption settings: '', Nums (observed Use_encryption (rows df))],
      [Txt ''  - Compression levels: '', Nums (observed Compression_level (rows df))]]"

text \<open>A world holding one table under the default input path, and example tables.\<close>

definition world_with :: "benchmark_record frame \<Rightarrow> world" where
  "world_with t = \<lparr>console = [], files = [default_input_file \<mapsto> Csv t]\<rparr>"

definition param_row :: "int \<Rightarrow> int \<Rightarrow> int \<Rightarrow> benchmark_record" where
  "param_row b e enc =
     \<lparr>batch_size = b, entry_size_bytes = e, consumers = 4, use_encryption = enc,
      compression_level = 0, entries_per_sec = 50000, write_amplification = 1.2,
      avg_latency_ms = 3.5, logical_throughput_gib_sec = 0.05\<rparr>"

definition no_throughput :: "benchmark_record frame" where
  "no_throughput =
     Frame [Dim Batch_size, Dim Entry_size_bytes, Dim Consumers, Dim Use_encryption,
            Dim Compression_level, Metric Entries_per_sec, Metric Write_amplification,
            Metric Avg_latency_ms]
       [param_row 512 1024 1, param_row 512 1024 0]"

definition no_batch_size :: "benchmark_record frame" where
  "no_batch_size =
     Frame [Dim Entry_size_bytes, Dim Consumers, Dim Use_encryption,
            Dim Compression_level, Metric Entries_per_sec, Metric Write_amplification,
            Metric Avg_latency_ms, Metric Logical_throughput_gib_sec]
       [param_row 512 1024 1]"

definition encrypted_two_batches :: "benchmark_record frame" where
  "encrypted_two_batches = Frame all_columns [param_row 512 1024 1, param_row 1024 1024 1]"

definition unencrypted_two_sizes :: "benchmark_record frame" where
  "unencrypted_two_sizes = Frame all_columns [param_row 512 1024 0, param_row 512 4096 0]"

text \<open>The rows holding a value of a parameter, and the rows of an encryption/compression
  combination.\<close>

definition rows_with :: "dim \<Rightarrow> int \<Rightarrow> ('a benchmark_record_scheme) list \<Rightarrow> ('a benchmark_record_scheme) list" where
  "rows_with d v rs = filter (\<lambda>r. dim_val d r = v) rs"




text \<open>Example tables for the charts.\<close>

definition level_row :: "int \<Rightarrow> int \<Rightarrow> int \<Rightarrow> real \<Rightarrow> real \<Rightarrow> benchmark_record" where
  "level_row b enc cl eps wa =
     \<lparr>batch_size = b, entry_size_bytes = 1024, consumers = 4, use_encryption = enc,
      compression_level = cl, entries_per_sec = eps, write_amplification = wa,
      avg_latency_ms = 3.5, logical_throughput_gib_sec = 0.05\<rparr>"

definition two_levels :: "benchmark_record frame" where
  "two_levels = Frame all_columns
     [level_row 512 0 0 50000 1.2, level_row 1024 1 0 70000 1.3, level_row 512 0 9 30000 1.5]"

text \<open>The rows of a variant (writers, entry size) of the batch-analysis view.\<close>

definition variant_rows :: "int \<times> int \<Rightarrow> ('a benchmark_record_scheme) list
    \<Rightarrow> ('a benchmark_record_scheme) list" where
  "variant_rows c rs = filter (\<lambda>r. consumers r = fst c \<and> entry_size_bytes r = snd c) rs"

text \<open>The write-amplification percentages of the right subplot: per variant that has rows,
  one value per batch size the variant has rows for.\<close>

definition percent_values :: "('a benchmark_record_scheme) list \<Rightarrow> real list list" where
  "percent_values rs =
     map (\<lambda>c. map (\<lambda>bs. (mean_of write_amplification
                             (rows_with Batch_size bs (variant_rows c rs)) - 1) * 100)
                  (filter (\<lambda>bs. bs \<in> batch_size ` set (variant_rows c rs))
                     (observed Batch_size rs)))
       (filter (\<lambda>c. variant_rows c rs \<noteq> []) (map fst variants))"

definition percent_example :: "benchmark_record frame" where
  "percent_example = Frame all_columns
     [level_row 512 1 0 50000 1.0, level_row 1024 1 0 70000 1.25]"

definition variant_line_values :: "(real \<Rightarrow> real) \<Rightarrow> metric \<Rightarrow> int list
    \<Rightarrow> ('a benchmark_record_scheme) list \<Rightarrow> real list list" where
  "variant_line_values f m keys rs =
     map (\<lambda>c. map (\<lambda>bs. f (mean_of (metric_val m) (rows_with Batch_size bs (variant_rows c rs))))
                  (filter (\<lambda>bs. bs \<in> batch_size ` set (variant_rows c rs)) keys))
       (filter (\<lambda>c. variant_rows c rs \<noteq> []) (map fst variants))"

definition variant_line :: "(real \<Rightarrow> real) \<Rightarrow> metric \<Rightarrow> int list \<Rightarrow> ('a benchmark_record_scheme) list
    \<Rightarrow> ((int \<times> int) \<times> string) \<Rightarrow> draw list" where
  "variant_line f m keys rs v =
     (if variant_rows (fst v) rs = [] then []
      else let pts = present_points f
                 (group_means (group_sums (dim_val Batch_size) (metric_val m)
                    (variant_rows (fst v) rs))) (enumerate 0 keys)
           in [Line (map fst pts) (map snd pts) [Txt (snd v)]])"

text \<open>The baseline of an entry size in the scaling-efficiency subplot: the mean throughput
  of its rows at the smallest observed writer-thread count.\<close>

definition baseline_of :: "('a benchmark_record_scheme) list \<Rightarrow> int \<Rightarrow> real" where
  "baseline_of rs entry_size =
     mean_of entries_per_sec
       (rows_with Consumers (Min (consumers ` set rs)) (rows_with Entry_size_bytes entry_size rs))"

text \<open>The normalised series of an entry size: drawn only when the baseline is present and
  positive.\<close>

definition scaling_series :: "('a benchmark_record_scheme) list \<Rightarrow> int \<Rightarrow> draw list" where
  "scaling_series rs entry_size =
     (if Min (consumers ` set rs) \<in> consumers ` set (rows_with Entry_size_bytes entry_size rs)
         \<and> 0 < baseline_of rs entry_size
      then [Line (map real_of_int (observed Consumers rs))
              (map (\<lambda>c. if c \<in> consumers ` set (rows_with Entry_size_bytes entry_size rs)
                        then mean_of entries_per_sec
                               (rows_with Consumers c (rows_with Entry_size_bytes entry_size rs))
                             / baseline_of rs entry_size
                        else 0)
                 (observed Consumers rs))
              (kb_label entry_size)]
      else [])"

definition scaling_example :: "benchmark_record frame" where
  "scaling_example = Frame all_columns
     [\<lparr>batch_size = 512, entry_size_bytes = 1024, consumers = 4, use_encryption = 1,
       compression_level = 0, entries_per_sec = 50000, write_amplification = 1.2,
       avg_latency_ms = 3.5, logical_throughput_gib_sec = 0.05\<rparr>,
      \<lparr>batch_size = 512, entry_size_bytes = 1024, consumers = 8, use_encryption = 1,
       compression_level = 0, entries_per_sec = 80000, write_amplification = 1.2,
       avg_latency_ms = 3.5, logical_throughput_gib_sec = 0.05\<rparr>,
      \<lparr>batch_size = 512, entry_size_bytes = 2048, consumers = 4, use_encryption = 1,
       compression_level = 0, entries_per_sec = 0, write_amplification = 1.2,
       avg_latency_ms = 3.5, logical_throughput_gib_sec = 0.05\<rparr>,
      \<lparr>batch_size = 512, entry_size_bytes = 4096, consumers = 8, use_encryption = 1,
       compression_level = 0, entries_per_sec = 60000, write_amplification = 1.2,
       avg_latency_ms = 3.5, logical_throughput_gib_sec = 0.05\<rparr>]"










section \<open>Lemmas\<close>

subsection \<open>Grouping and averaging\<close>

lemma ebind_simps [simp]:
  "ebind (Inl e) f = Inl e"
  "ebind (Inr x) f = f x"
  by (simp_all add: ebind_def)

lemma add_to_group_keys:
  "set (map fst (add_to_group k v gs)) = insert k (set (map fst gs))"
  by (induction k v gs rule: add_to_group.induct) force+

lemma add_to_group_sorted:
  "sorted_wrt (<) (map fst gs) \<Longrightarrow> sorted_wrt (<) (map fst (add_to_group k v gs))"
proof (induction gs)
  case Nil
  then show ?case by simp
next
  case (Cons g gs)
  obtain k' s n where g: "g = (k', s, n)" by (cases g)
  from Cons.prems have tl: "sorted_wrt (<) (map fst gs)" by simp
  from Cons.prems g have hd: "\<forall>x \<in> set (map fst gs). k' < x" by simp
  show ?case
  proof (cases "k = k'")
    case True
    with Cons.prems g show ?thesis by simp
  next
    case False
    show ?thesis
    proof (cases "k < k'")
      case True
      with Cons.prems g hd show ?thesis by (auto simp del: set_map)
    next
      case ge: False
      with False have "k' < k" by simp
      with hd have "\<forall>x \<in> set (map fst (add_to_group k v gs)). k' < x"
        unfolding add_to_group_keys by simp
      with False ge g Cons.IH[OF tl] show ?thesis by simp
    qed
  qed
qed

lemma add_to_group_lookup:
  "sorted_wrt (<) (map fst gs) \<Longrightarrow>
   map_of (add_to_group k v gs) =
     (map_of gs)(k \<mapsto> (case map_of gs k of None \<Rightarrow> (v, 1) | Some (s, n) \<Rightarrow> (s + v, Suc n)))"
proof (induction gs)
  case Nil
  then show ?case by simp
next
  case (Cons g gs)
  obtain k' s n where g: "g = (k', s, n)" by (cases g)
  from Cons.prems have tl: "sorted_wrt (<) (map fst gs)" by simp
  from Cons.prems g have hd: "\<forall>x \<in> set (map fst gs). k' < x" by simp
  show ?case
  proof (cases "k = k'")
    case True
    with g show ?thesis by (auto simp: fun_eq_iff)
  next
    case False
    show ?thesis
    proof (cases "k < k'")
      case True
      with hd have "k \<notin> set (map fst gs)" by auto
      then have "map_of gs k = None" by (simp add: map_of_eq_None_iff)
      with True False g show ?thesis by (auto simp: fun_eq_iff)
    next
      case ge: False
      with False g Cons.IH[OF tl] show ?thesis by (auto simp: fun_eq_iff)
    qed
  qed
qed

lemma fold_add_to_group:
  "sorted_wrt (<) (map fst acc) \<Longrightarrow>
   sorted_wrt (<) (map fst (fold (\<lambda>r gs. add_to_group (key r) (val r) gs) rs acc)) \<and>
   set (map fst (fold (\<lambda>r gs. add_to_group (key r) (val r) gs) rs acc))
     = set (map fst acc) \<union> key ` set rs \<and>
   (\<forall>k. map_of (fold (\<lambda>r gs. add_to_group (key r) (val r) gs) rs acc) k
      = merge_group (map_of acc k) (map val (filter (\<lambda>r. key r = k) rs)))"
proof (induction rs arbitrary: acc)
  case Nil
  show ?case using Nil by (auto simp: merge_group_def split: option.splits)
next
  case (Cons r rs)
  let ?acc = "add_to_group (key r) (val r) acc"
  have s: "sorted_wrt (<) (map fst ?acc)" using Cons.prems by (rule add_to_group_sorted)
  note IH = Cons.IH[OF s]
  have look: "map_of ?acc = (map_of acc)(key r \<mapsto>
      (case map_of acc (key r) of None \<Rightarrow> (val r, 1) | Some (s, n) \<Rightarrow> (s + val r, Suc n)))"
    using Cons.prems by (rule add_to_group_lookup)
  have 1: "sorted_wrt (<) (map fst (fold (\<lambda>r gs. add_to_group (key r) (val r) gs) (r # rs) acc))"
    using IH by simp
  have 2: "set (map fst (fold (\<lambda>r gs. add_to_group (key r) (val r) gs) (r # rs) acc))
     = set (map fst acc) \<union> key ` set (r # rs)"
    using IH add_to_group_keys[of "key r" "val r" acc] by auto
  have 3: "map_of (fold (\<lambda>r gs. add_to_group (key r) (val r) gs) (r # rs) acc) k
      = merge_group (map_of acc k) (map val (filter (\<lambda>r. key r = k) (r # rs)))" for k
  proof -
    have "map_of (fold (\<lambda>r gs. add_to_group (key r) (val r) gs) (r # rs) acc) k
        = merge_group (map_of ?acc k) (map val (filter (\<lambda>r. key r = k) rs))"
      using IH by simp
    also have "\<dots> = merge_group (map_of acc k) (map val (filter (\<lambda>r. key r = k) (r # rs)))"
      unfolding look by (auto simp: merge_group_def split: option.splits)
    finally show ?thesis .
  qed
  from 1 2 3 show ?case by blast
qed

lemma group_sums_props:
  "sorted_wrt (<) (map fst (group_sums key val rs))"
  "set (map fst (group_sums key val rs)) = key ` set rs"
  "map_of (group_sums key val rs) k = merge_group None (map val (filter (\<lambda>r. key r = k) rs))"
  using fold_add_to_group[of "[]" key val rs] by (simp_all add: group_sums_def)

lemma map_of_group_means:
  "map_of (group_means gs) k = map_option (\<lambda>(s, n). s / real n) (map_of gs k)"
  by (induction gs) (auto simp: group_means_def)

lemma index_group_means: "map fst (group_means gs) = map fst gs"
  by (induction gs) (auto simp: group_means_def)

lemma group_means_index:
  "map fst (group_means (group_sums key val rs)) = sorted_list_of_set (key ` set rs)"
proof -
  have "sorted_wrt (<) (map fst (group_sums key val rs))"
    and "set (map fst (group_sums key val rs)) = key ` set rs"
    by (rule group_sums_props)+
  then show ?thesis
    unfolding index_group_means
    by (metis List.finite_set finite_imageI sorted_list_of_set.idem_if_sorted_distinct strict_sorted_iff)
qed

lemma group_means_lookup:
  "map_of (group_means (group_sums key val rs)) k =
     (if k \<in> key ` set rs
      then Some (sum_list (map val (filter (\<lambda>r. key r = k) rs))
                 / real (length (filter (\<lambda>r. key r = k) rs)))
      else None)"
proof -
  have "(filter (\<lambda>r. key r = k) rs = []) = (k \<notin> key ` set rs)"
    by (auto simp: filter_empty_conv)
  then show ?thesis
    by (auto simp: map_of_group_means group_sums_props(3) merge_group_def)
qed

subsection \<open>Loading\<close>

lemma load_gdpr_data_Inr:
  "load_gdpr_data input_file fs = Inr df \<longleftrightarrow>
     (\<exists>raw. read_csv input_file fs = Inr raw
        \<and> Dim Use_encryption \<in> set (header raw)
        \<and> Dim Compression_level \<in> set (header raw)
        \<and> Dim Entry_size_bytes \<in> set (header raw)
        \<and> df = Frame (header raw @ [Label Encryption_label, Label Compression_label,
                                     Label Entry_size_label])
                  (map add_labels (rows raw)))"
  by (cases "read_csv input_file fs")
     (auto simp: load_gdpr_data_def dim_column_def)

lemma loaded_header:
  assumes "load_gdpr_data input_file fs = Inr df"
  shows "Dim Use_encryption \<in> set (header df)"
    and "Dim Compression_level \<in> set (header df)"
    and "Dim Entry_size_bytes \<in> set (header df)"
  using assms by (auto simp: load_gdpr_data_Inr)

lemma load_unencrypted:
  "load_gdpr_data ''results.csv'' unencrypted_fs =
     Inr (Frame (all_columns @ [Label Encryption_label, Label Compression_label,
                                Label Entry_size_label]) [add_labels unencrypted_row])"
  by (simp add: load_gdpr_data_def read_csv_def unencrypted_fs_def dim_column_def
      all_columns_def)

lemma group_sums_map:
  "group_sums key val (map g rs) = group_sums (key \<circ> g) (val \<circ> g) rs"
  by (simp add: group_sums_def fold_map comp_def)

lemma dim_val_add_labels [simp]: "dim_val d (add_labels r) = dim_val d r"
  by (cases d) (simp_all add: add_labels_def)

lemma metric_val_add_labels [simp]: "metric_val m (add_labels r) = metric_val m r"
  by (cases m) (simp_all add: add_labels_def)

subsection \<open>What an action does to the world\<close>

lemma uniformI:
  "dom W \<subseteq> P \<Longrightarrow>
   (\<And>w. a w = (r, w\<lparr>console := console w @ L, files := files w ++ W\<rparr>)) \<Longrightarrow> uniform P a"
  unfolding uniform_def by blast

lemma uniform_say: "uniform P (say l)"
  by (rule uniformI[where r = None and L = "[l]" and W = Map.empty])
     (simp_all add: say_def print_line_def)

lemma uniform_print_unique: "uniform P (print_unique title d df)"
proof (cases "unique_sorted d df")
  case (Inl e)
  show ?thesis
    by (rule uniformI[where r = "Some e" and L = "[]" and W = Map.empty])
       (simp_all add: print_unique_def Inl)
next
  case (Inr vs)
  show ?thesis
    by (rule uniformI[where r = None and L = "[[Txt title, Nums vs]]" and W = Map.empty])
       (simp_all add: print_unique_def Inr print_line_def)
qed

lemma save_both_eq:
  "save_both output_dir name fig w =
     w\<lparr>files := files w ++ [path_join output_dir (name @ ''.png'') \<mapsto> Image PNG fig,
                              path_join output_dir (name @ ''.pdf'') \<mapsto> Image PDF fig]\<rparr>"
  by (simp add: save_both_def savefig_def map_add_def fun_eq_iff)

lemma uniform_emit:
  assumes "path_join output_dir (name @ ''.png'') \<in> P"
    and "path_join output_dir (name @ ''.pdf'') \<in> P"
  shows "uniform P (emit fig output_dir name)"
proof (cases fig)
  case (Inl e)
  show ?thesis
    by (rule uniformI[where r = "Some e" and L = "[]" and W = Map.empty])
       (simp_all add: emit_def Inl)
next
  case (Inr f)
  show ?thesis
    by (rule uniformI[where r = None and L = "[]"
          and W = "[path_join output_dir (name @ ''.png'') \<mapsto> Image PNG f,
                    path_join output_dir (name @ ''.pdf'') \<mapsto> Image PDF f]"])
       (use assms in \<open>simp_all add: emit_def Inr save_both_eq\<close>)
qed

lemma uniform_andthen:
  assumes "uniform P a" and "uniform P b"
  shows "uniform P (andthen a b)"
proof -
  from assms(1) obtain r1 L1 W1
    where a: "\<And>w. a w = (r1, w\<lparr>console := console w @ L1, files := files w ++ W1\<rparr>)"
      and d1: "dom W1 \<subseteq> P"
    unfolding uniform_def by blast
  from assms(2) obtain r2 L2 W2
    where b: "\<And>w. b w = (r2, w\<lparr>console := console w @ L2, files := files w ++ W2\<rparr>)"
      and d2: "dom W2 \<subseteq> P"
    unfolding uniform_def by blast
  show ?thesis
  proof (cases r1)
    case None
    show ?thesis
      by (rule uniformI[where r = r2 and L = "L1 @ L2" and W = "W1 ++ W2"])
         (use d1 d2 in \<open>simp_all add: andthen_def a b None\<close>)
  next
    case (Some e)
    show ?thesis
      by (rule uniformI[where r = "Some e" and L = L1 and W = W1])
         (use d1 in \<open>simp_all add: andthen_def a Some\<close>)
  qed
qed

lemma print_variants_header:
  assumes "Dim Consumers \<in> set (header fdf)" and "Dim Entry_size_bytes \<in> set (header fdf)"
  shows "print_variants vs fdf w =
     (None, w\<lparr>console := console w @
        map (\<lambda>((c, e), lab). [Txt ''  - '', Txt lab, Txt '': '',
               Num (int (length (filter (\<lambda>r. consumers r = c \<and> entry_size_bytes r = e) (rows fdf)))),
               Txt '' data points'']) vs\<rparr>)"
  using assms
  by (induction vs fdf w rule: print_variants.induct)
     (simp_all add: filter_eq2_def print_line_def)

lemma batch_analysis_figure_header:
  assumes "batch_analysis_figure fdf = Inr fig"
  shows "Dim Consumers \<in> set (header fdf) \<and> Dim Entry_size_bytes \<in> set (header fdf)"
proof (rule ccontr)
  assume "\<not> ?thesis"
  then have "\<exists>e. filter_eq2 Consumers 4 Entry_size_bytes 256 fdf = Inl e"
    by (auto simp: filter_eq2_def)
  then obtain e where "filter_eq2 Consumers 4 Entry_size_bytes 256 fdf = Inl e" ..
  then have "variant_lines f m bs fdf = Inl e" for f m bs
    by (simp add: variant_lines_def variants_def)
  then have "isl (batch_analysis_figure fdf)"
    by (cases "unique_sorted Batch_size fdf") (simp_all add: batch_analysis_figure_def)
  with assms show False by simp
qed

lemma uniform_batch_analysis:
  assumes "path_join output_dir ''batch_analysis.png'' \<in> P"
    and "path_join output_dir ''batch_analysis.pdf'' \<in> P"
  shows "uniform P (create_encryption_batch_analysis_plot df output_dir)"
proof (cases "filter_eq2 Compression_level 0 Use_encryption 1 df")
  case (Inl e)
  show ?thesis
    by (rule uniformI[where r = "Some e" and L = "[]" and W = Map.empty])
       (simp_all add: create_encryption_batch_analysis_plot_def Inl)
next
  case (Inr fdf)
  show ?thesis
  proof (cases "empty fdf")
    case True
    show ?thesis
      by (rule uniformI[where r = None
            and L = "[[Txt ''No data found for compression=0 and encryption=1'']]"
            and W = Map.empty])
         (simp_all add: create_encryption_batch_analysis_plot_def Inr True print_line_def)
  next
    case False
    show ?thesis
    proof (cases "batch_analysis_figure fdf")
      case (Inl e)
      show ?thesis
        by (rule uniformI[where r = "Some e" and L = "[]" and W = Map.empty])
           (simp_all add: create_encryption_batch_analysis_plot_def Inr False Inl)
    next
      case fig: (Inr fig)
      from batch_analysis_figure_header[OF fig]
      have h: "Dim Consumers \<in> set (header fdf)" "Dim Entry_size_bytes \<in> set (header fdf)"
        by simp_all
      show ?thesis
        by (rule uniformI[where r = None
              and L = "[Txt ''Generated batch analysis paper plot with '',
                        Num (int (length variants)), Txt '' variants:''] #
                 map (\<lambda>((c, e), lab). [Txt ''  - '', Txt lab, Txt '': '',
                    Num (int (length (filter (\<lambda>r. consumers r = c \<and> entry_size_bytes r = e)
                       (rows fdf)))), Txt '' data points'']) variants"
              and W = "[path_join output_dir (''batch_analysis'' @ ''.png'') \<mapsto> Image PNG fig,
                        path_join output_dir (''batch_analysis'' @ ''.pdf'') \<mapsto> Image PDF fig]"])
           (use assms in \<open>simp_all add: create_encryption_batch_analysis_plot_def Inr False fig
              print_variants_header[OF h] print_line_def save_both_eq\<close>)
    qed
  qed
qed

lemma uniform_views: "a \<in> set (views df output_dir) \<Longrightarrow> uniform (set (output_paths output_dir)) a"
  by (auto simp: views_def output_paths_def intro!: uniform_emit uniform_batch_analysis simp:
      create_encryption_effect_plots_def create_compression_effect_plots_def
      create_entry_size_effect_plots_def create_writer_threads_effect_plots_def
      create_batch_size_effect_plots_def create_heatmaps_def)

lemma andthen_skip: "andthen a (\<lambda>w. (None, w)) = a"
  by (rule ext) (simp add: andthen_def split: prod.splits option.splits)

lemma generate_plots_run_all: "generate_plots df output_dir = run_all (views df output_dir)"
  by (simp add: generate_plots_def views_def andthen_skip)

lemma uniform_run_all: "(\<And>a. a \<in> set as \<Longrightarrow> uniform P a) \<Longrightarrow> uniform P (run_all as)"
proof (induction as)
  case Nil
  show ?case
    by (rule uniformI[where r = None and L = "[]" and W = Map.empty]) simp_all
next
  case (Cons a as)
  have "uniform P (andthen a (run_all as))"
    using Cons by (intro uniform_andthen) simp_all
  then show ?case by simp
qed

lemma uniform_generate_plots: "uniform (set (output_paths output_dir)) (generate_plots df output_dir)"
  unfolding generate_plots_run_all by (rule uniform_run_all) (rule uniform_views)

lemma uniform_data_summary: "uniform P (data_summary df)"
  unfolding data_summary_def
  by (intro uniform_andthen uniform_say uniform_print_unique)

lemma uniform_print_plot_summary: "uniform P print_plot_summary"
  by (rule uniformI[where r = None and L = plot_summary_lines and W = Map.empty])
     (simp_all add: print_plot_summary_def)

lemma uniform_report: "uniform (set (output_paths output_dir)) (report df output_dir)"
  unfolding report_def
  by (intro uniform_andthen uniform_say uniform_data_summary uniform_generate_plots
      uniform_print_plot_summary)

lemma files_print_line [simp]: "files (print_line l w) = files w"
  by (simp add: print_line_def)

lemma main_eq:
  "main input_file output_dir w =
     (case load_gdpr_data input_file (files w) of
        Inl e \<Rightarrow> (Some e, print_line [Txt ''Loading data from '', Txt input_file, Txt ''...''] w)
      | Inr df \<Rightarrow> report df output_dir
                  (print_line [Txt ''Loading data from '', Txt input_file, Txt ''...''] w))"
  by (cases "load_gdpr_data input_file (files w)") (simp_all add: main_def report_def Let_def)

lemma load_depends_on_input_only:
  "fs' input_file = fs input_file \<Longrightarrow> load_gdpr_data input_file fs' = load_gdpr_data input_file fs"
  by (simp add: load_gdpr_data_def read_csv_def)

lemma map_add_twice: "m ++ W ++ W = m ++ W"
  by (simp add: map_add_def fun_eq_iff split: option.splits)

lemma uniform_rerun:
  assumes "uniform P a" and "a w = (r, w')"
  shows "a (w'\<lparr>console := console w\<rparr>) = (r, w')"
proof -
  from assms(1) obtain r0 L W
    where a: "\<And>w. a w = (r0, w\<lparr>console := console w @ L, files := files w ++ W\<rparr>)"
    unfolding uniform_def by blast
  from assms(2) a[of w] have r: "r = r0" and w': "w' = w\<lparr>console := console w @ L, files := files w ++ W\<rparr>"
    by simp_all
  show ?thesis unfolding a r w' by (simp add: map_add_twice)
qed

lemma main_keeps_other_files:
  assumes "p \<notin> set (output_paths output_dir)"
  shows "files (snd (main input_file output_dir w)) p = files w p"
proof (cases "load_gdpr_data input_file (files w)")
  case (Inl e)
  then show ?thesis by (simp add: main_eq)
next
  case (Inr df)
  from uniform_report[of output_dir df] obtain r L W
    where d: "dom W \<subseteq> set (output_paths output_dir)"
      and a: "\<And>w. report df output_dir w =
                (r, w\<lparr>console := console w @ L, files := files w ++ W\<rparr>)"
    unfolding uniform_def by blast
  from d assms have "W p = None" by blast
  then show ?thesis
    by (simp add: main_eq Inr a map_add_def)
qed

subsection \<open>The chart builders\<close>

lemma ebind_Inr_iff: "ebind m f = Inr y \<longleftrightarrow> (\<exists>x. m = Inr x \<and> f x = Inr y)"
  by (cases m) simp_all

lemma emap_Inr_map:
  assumes "emap f xs = Inr ys"
    and "\<And>x y. x \<in> set xs \<Longrightarrow> f x = Inr y \<Longrightarrow> y = g x"
  shows "ys = map g xs"
  using assms
proof (induction xs arbitrary: ys)
  case Nil
  then show ?case by simp
next
  case (Cons x xs)
  from Cons.prems(1) obtain y ys' where y: "f x = Inr y" and ys': "emap f xs = Inr ys'"
    and ys: "ys = y # ys'"
    by (auto simp: ebind_Inr_iff)
  from Cons.prems(2)[of x y] y have "y = g x" by simp
  moreover from Cons.IH[OF ys'] Cons.prems(2) have "ys' = map g xs" by simp
  ultimately show ?case using ys by simp
qed

lemma emap_all_Inr:
  "(\<And>x. x \<in> set xs \<Longrightarrow> f x = Inr (g x)) \<Longrightarrow> emap f xs = Inr (map g xs)"
  by (induction xs) simp_all

lemma unique_sorted_eq:
  "unique_sorted d df =
     (if Dim d \<in> set (header df) then Inr (observed d (rows df)) else Inl (KeyError (Dim d)))"
  by (simp add: unique_sorted_def dim_column_def observed_def sorted_list_of_set_sort_remdups
      flip: set_map)

lemma unique_sorted_Inr:
  "unique_sorted d df = Inr ks \<Longrightarrow> ks = observed d (rows df) \<and> Dim d \<in> set (header df)"
  by (simp add: unique_sorted_eq split: if_splits)

lemma filter_eq_Inr:
  "filter_eq d v df = Inr sub \<Longrightarrow>
     sub = Frame (header df) (filter (\<lambda>r. dim_val d r = v) (rows df))"
  by (simp add: filter_eq_def split: if_splits)

lemma filter_eq2_Inr:
  "filter_eq2 d1 v1 d2 v2 df = Inr sub \<Longrightarrow>
     sub = Frame (header df) (filter (\<lambda>r. dim_val d1 r = v1 \<and> dim_val d2 r = v2) (rows df))"
  by (simp add: filter_eq2_def split: if_splits)

lemma groupby_mean_Inr:
  "groupby_mean d m df = Inr data \<Longrightarrow>
     data = group_means (group_sums (dim_val d) (metric_val m) (rows df))"
  by (simp add: groupby_mean_def split: if_splits)

lemma fallback_values_group:
  "fallback_values f dflt (group_means (group_sums (dim_val kd) (metric_val m) rs)) keys =
     map (plotted f dflt kd m rs) keys"
  by (simp add: fallback_values_def group_means_lookup plotted_def mean_of_def)

lemma bar_Inr: "bar x h l ht = Inr y \<Longrightarrow> y = Bar x h l ht"
  by (simp add: bar_def split: if_splits)

lemma py_index_Inr: "py_index xs i = Inr y \<Longrightarrow> y = xs ! i \<and> i < length xs"
  by (simp add: py_index_def split: if_splits)

lemma fallback_bars_Inr:
  assumes "fallback_bars sd svals lab kd m f dflt keys df = Inr a"
  shows "xkeys a = keys"
    and "map heights (draws a) =
           map (\<lambda>s. map (plotted f dflt kd m (filter (\<lambda>r. dim_val sd r = s) (rows df))) keys) svals"
proof -
  let ?body = "\<lambda>(i, s).
              ebind (filter_eq sd s df) (\<lambda>sub.
              ebind (groupby_mean kd m sub) (\<lambda>data.
              ebind (py_index hatches i) (\<lambda>hatch.
              bar (map (\<lambda>x. x + real i * 0.25) (arange (length keys)))
                  (fallback_values f dflt data keys) (lab s) hatch)))"
  let ?g = "\<lambda>(i, s). Bar (map (\<lambda>x. x + real i * 0.25) (arange (length keys)))
       (map (plotted f dflt kd m (filter (\<lambda>r. dim_val sd r = s) (rows df))) keys) (lab s)
       (hatches ! i)"
  from assms obtain bars where bars: "emap ?body (enumerate 0 svals) = Inr bars"
    and a: "a = \<lparr>xkeys = keys, draws = bars\<rparr>"
    unfolding fallback_bars_def by (auto simp: ebind_Inr_iff)
  have "y = ?g p" if "?body p = Inr y" for p y
  proof -
    obtain i s where p: "p = (i, s)" by (cases p)
    from that p obtain sub data hatch where "filter_eq sd s df = Inr sub"
      and "groupby_mean kd m sub = Inr data" and "py_index hatches i = Inr hatch"
      and "bar (map (\<lambda>x. x + real i * 0.25) (arange (length keys)))
                  (fallback_values f dflt data keys) (lab s) hatch = Inr y"
      by (auto simp: ebind_Inr_iff)
    then show ?thesis
      using p by (auto dest!: filter_eq_Inr groupby_mean_Inr py_index_Inr bar_Inr
          simp: fallback_values_group)
  qed
  with bars have "bars = map ?g (enumerate 0 svals)"
    by (intro emap_Inr_map[where f = ?body]) auto
  then have "map heights bars =
      map (\<lambda>p. map (plotted f dflt kd m (filter (\<lambda>r. dim_val sd r = snd p) (rows df))) keys)
        (enumerate 0 svals)"
    by (simp add: heights_def comp_def case_prod_unfold)
  also have "\<dots> =
      map (\<lambda>s. map (plotted f dflt kd m (filter (\<lambda>r. dim_val sd r = s) (rows df))) keys)
        (map snd (enumerate 0 svals))"
    unfolding map_map by (simp add: comp_def)
  finally have "map heights bars =
      map (\<lambda>s. map (plotted f dflt kd m (filter (\<lambda>r. dim_val sd r = s) (rows df))) keys) svals"
    by simp
  with a show "xkeys a = keys"
    and "map heights (draws a) =
           map (\<lambda>s. map (plotted f dflt kd m (filter (\<lambda>r. dim_val sd r = s) (rows df))) keys) svals"
    by simp_all
qed

lemma fallback_lines_Inr:
  assumes "fallback_lines sd svals lab kd m f dflt keys df = Inr a"
  shows "xkeys a = keys"
    and "draws a =
           map (\<lambda>s. Line (map real_of_int keys)
                  (map (plotted f dflt kd m (filter (\<lambda>r. dim_val sd r = s) (rows df))) keys)
                  (lab s)) svals"
proof -
  let ?body = "\<lambda>s.
              ebind (filter_eq sd s df) (\<lambda>sub.
              ebind (groupby_mean kd m sub) (\<lambda>data.
              Inr (Line (map real_of_int keys) (fallback_values f dflt data keys) (lab s))))"
  let ?g = "\<lambda>s. Line (map real_of_int keys)
                  (map (plotted f dflt kd m (filter (\<lambda>r. dim_val sd r = s) (rows df))) keys)
                  (lab s)"
  from assms obtain lines where lines: "emap ?body svals = Inr lines"
    and a: "a = \<lparr>xkeys = keys, draws = lines\<rparr>"
    unfolding fallback_lines_def by (auto simp: ebind_Inr_iff)
  have "y = ?g s" if "?body s = Inr y" for s y
    using that
    by (auto simp: ebind_Inr_iff fallback_values_group dest!: filter_eq_Inr groupby_mean_Inr)
  with lines have "lines = map ?g svals"
    by (intro emap_Inr_map[where f = ?body]) auto
  with a show "xkeys a = keys" and "draws a = map ?g svals"
    by simp_all
qed

lemma combination_lines_Inr:
  assumes "combination_lines combs kd m f dflt keys df = Inr a"
  shows "xkeys a = keys"
    and "draws a = concat (map (combination_line kd m f dflt keys (rows df)) combs)"
proof -
  let ?body = "\<lambda>((enc, comp), lab).
              ebind (filter_eq2 Use_encryption enc Compression_level comp df) (\<lambda>subset.
              if empty subset then Inr []
              else ebind (groupby_mean kd m subset) (\<lambda>data.
                   Inr [Line (map real_of_int keys) (fallback_values f dflt data keys)
                          [Txt lab]]))"
  from assms obtain lines where lines: "emap ?body combs = Inr lines"
    and a: "a = \<lparr>xkeys = keys, draws = concat lines\<rparr>"
    unfolding combination_lines_def by (auto simp: ebind_Inr_iff)
  have "y = combination_line kd m f dflt keys (rows df) c" if "?body c = Inr y" for c y
  proof -
    obtain enc cl lab where c: "c = ((enc, cl), lab)" by (cases c) auto
    from that c obtain subset
      where s: "filter_eq2 Use_encryption enc Compression_level cl df = Inr subset"
        and y: "(if empty subset then Inr []
              else ebind (groupby_mean kd m subset) (\<lambda>data.
                   Inr [Line (map real_of_int keys) (fallback_values f dflt data keys)
                          [Txt lab]])) = Inr y"
      by (auto simp: ebind_Inr_iff)
    from filter_eq2_Inr[OF s]
    have sub: "subset = Frame (header df)
        (filter (\<lambda>r. use_encryption r = enc \<and> compression_level r = cl) (rows df))"
      by simp
    show ?thesis
    proof (cases "empty subset")
      case True
      with y sub c show ?thesis by (simp add: combination_line_def empty_def)
    next
      case False
      with y obtain data where "groupby_mean kd m subset = Inr data"
        and "y = [Line (map real_of_int keys) (fallback_values f dflt data keys) [Txt lab]]"
        by (auto simp: ebind_Inr_iff)
      with False sub c show ?thesis
        by (auto simp: combination_line_def empty_def fallback_values_group
            dest!: groupby_mean_Inr)
    qed
  qed
  with lines have "lines = map (combination_line kd m f dflt keys (rows df)) combs"
    by (intro emap_Inr_map[where f = ?body]) auto
  with a show "xkeys a = keys"
    and "draws a = concat (map (combination_line kd m f dflt keys (rows df)) combs)"
    by simp_all
qed

subsection \<open>Axis keys of the views\<close>

lemma encryption_axes_Inr:
  "encryption_axes kd m f df = Inr a \<Longrightarrow> xkeys a = observed kd (rows df)"
  unfolding encryption_axes_def
  by (auto simp: ebind_Inr_iff dest!: unique_sorted_Inr)

lemma group_sums_keys: "set (map fst (group_sums key val rs)) = key ` set rs"
  by (rule group_sums_props)

lemma unstack_keys:
  "pindex (unstack (group_means (group_sums (\<lambda>r. (dim_val a r, dim_val b r)) val rs)))
     = observed a rs"
  "pcolumns (unstack (group_means (group_sums (\<lambda>r. (dim_val a r, dim_val b r)) val rs)))
     = observed b rs"
proof -
  let ?data = "group_means (group_sums (\<lambda>r. (dim_val a r, dim_val b r)) val rs)"
  have k: "set (map fst ?data) = (\<lambda>r. (dim_val a r, dim_val b r)) ` set rs"
    by (simp only: index_group_means group_sums_keys)
  have "set (map (fst \<circ> fst) ?data) = fst ` set (map fst ?data)" by (simp add: image_comp)
  also have "\<dots> = dim_val a ` set rs" unfolding k by (simp add: image_comp comp_def)
  finally have ia: "set (map (fst \<circ> fst) ?data) = dim_val a ` set rs" .
  have "set (map (snd \<circ> fst) ?data) = snd ` set (map fst ?data)" by (simp add: image_comp)
  also have "\<dots> = dim_val b ` set rs" unfolding k by (simp add: image_comp comp_def)
  finally have ib: "set (map (snd \<circ> fst) ?data) = dim_val b ` set rs" .
  show "pindex (unstack ?data) = observed a rs"
    using ia by (simp add: unstack_def Let_def observed_def
        sorted_list_of_set_sort_remdups[symmetric] del: set_map)
  show "pcolumns (unstack ?data) = observed b rs"
    using ib by (simp add: unstack_def Let_def observed_def
        sorted_list_of_set_sort_remdups[symmetric] del: set_map)
qed

lemma groupby2_mean_unstack_Inr:
  "groupby2_mean_unstack a b m df = Inr p \<Longrightarrow>
     pindex p = observed a (rows df) \<and> pcolumns p = observed b (rows df)"
  by (auto simp: groupby2_mean_unstack_def unstack_keys split: if_splits)

lemma heatmap_Inr:
  "heatmap p = Inr a \<Longrightarrow> xkeys a = pcolumns p \<and> row_keys a = pindex p"
  by (auto simp: heatmap_def row_keys_def split: if_splits)

lemma pivot_scale_keys [simp]:
  "pindex (pivot_scale f p) = pindex p" "pcolumns (pivot_scale f p) = pcolumns p"
  by (simp_all add: pivot_scale_def)

lemma scaling_axes_xkeys: "scaling_axes cl df = Inr a \<Longrightarrow> xkeys a = cl"
  unfolding scaling_axes_def by (auto simp: ebind_Inr_iff)

lemma variant_lines_xkeys: "variant_lines f m bs fdf = Inr a \<Longrightarrow> xkeys a = bs"
  unfolding variant_lines_def by (auto simp: ebind_Inr_iff)

lemma encryption_effect_xkeys:
  assumes "encryption_effect_figure df = Inr fig"
  shows "map xkeys fig = [observed Batch_size (rows df), observed Entry_size_bytes (rows df),
           observed Compression_level (rows df), observed Consumers (rows df)]"
  using assms unfolding encryption_effect_figure_def
  by (auto simp: ebind_Inr_iff dest!: encryption_axes_Inr)

lemma compression_effect_xkeys:
  assumes "compression_effect_figure df = Inr fig"
  shows "map xkeys fig = [observed Batch_size (rows df), observed Entry_size_bytes (rows df),
           encryption_settings, observed Consumers (rows df)]"
  using assms unfolding compression_effect_figure_def
  by (auto simp: ebind_Inr_iff dest!: unique_sorted_Inr fallback_bars_Inr(1))

lemma entry_size_effect_xkeys:
  assumes "entry_size_effect_figure df = Inr fig"
  shows "map xkeys fig = [observed Batch_size (rows df), observed Compression_level (rows df),
           encryption_settings, observed Consumers (rows df)]"
  using assms unfolding entry_size_effect_figure_def
  by (auto simp: ebind_Inr_iff dest!: unique_sorted_Inr fallback_bars_Inr(1))

lemma writer_threads_effect_xkeys:
  assumes "writer_threads_effect_figure df = Inr fig"
  shows "map xkeys fig = replicate 4 (observed Consumers (rows df))"
  using assms unfolding writer_threads_effect_figure_def
  by (auto simp: ebind_Inr_iff numeral_eq_Suc
      dest!: unique_sorted_Inr fallback_lines_Inr(1) combination_lines_Inr(1) scaling_axes_xkeys)

lemma batch_size_effect_xkeys:
  assumes "batch_size_effect_figure df = Inr fig"
  shows "map xkeys fig = replicate 4 (observed Batch_size (rows df))"
  using assms unfolding batch_size_effect_figure_def
  by (auto simp: ebind_Inr_iff numeral_eq_Suc
      dest!: unique_sorted_Inr fallback_lines_Inr(1) combination_lines_Inr(1))

lemma heatmaps_xkeys:
  assumes "heatmaps_figure df = Inr fig"
  shows "map xkeys fig = [observed Compression_level (rows df), observed Use_encryption (rows df),
           observed Entry_size_bytes (rows df), observed Consumers (rows df)]"
    and "map row_keys fig = [observed Batch_size (rows df), observed Entry_size_bytes (rows df),
           observed Consumers (rows df), observed Batch_size (rows df)]"
  using assms unfolding heatmaps_figure_def
  by (auto simp: ebind_Inr_iff dest!: groupby2_mean_unstack_Inr heatmap_Inr)

lemma batch_analysis_xkeys:
  assumes "batch_analysis_figure fdf = Inr fig"
  shows "map xkeys fig = replicate 2 (observed Batch_size (rows fdf))"
  using assms unfolding batch_analysis_figure_def
  by (auto simp: ebind_Inr_iff numeral_eq_Suc dest!: unique_sorted_Inr variant_lines_xkeys)

subsection \<open>The views on the example of the specification\<close>

lemmas frame_defs = labelled_def spec_example_def spec_row_def add_labels_def all_columns_def
  encryption_map_def compression_map_def entry_size_map_def

lemmas pandas_defs = unique_sorted_def dim_column_def filter_eq_def filter_eq2_def empty_def
  groupby_mean_def group_sums_def group_means_def index_def values_of_def
  fallback_values_def py_index_def hatches_def arange_def bar_def

lemma spec_example_view1: "\<not> isl (encryption_effect_figure (labelled spec_example))"
  by (simp add: frame_defs pandas_defs encryption_axes_def encryption_effect_figure_def)

lemma spec_example_view2: "\<not> isl (compression_effect_figure (labelled spec_example))"
  by (simp add: frame_defs pandas_defs fallback_bars_def compression_label_of_def
      encryption_settings_def compression_effect_figure_def)

lemma spec_example_view3: "\<not> isl (entry_size_effect_figure (labelled spec_example))"
  by (simp add: frame_defs pandas_defs fallback_bars_def kb_label_def
      encryption_settings_def entry_size_effect_figure_def)

lemma spec_example_view4: "\<not> isl (writer_threads_effect_figure (labelled spec_example))"
  by (simp add: frame_defs pandas_defs fallback_lines_def combination_lines_def kb_label_def
      batch_label_def enc_comp_combinations_def scaling_line_def scaling_axes_def
      ideal_scaling_def np_true_divide_def writer_threads_effect_figure_def)

lemma spec_example_view5: "\<not> isl (batch_size_effect_figure (labelled spec_example))"
  by (simp add: frame_defs pandas_defs fallback_lines_def combination_lines_def kb_label_def
      writers_label_def enc_comp_combinations6_def selected_combinations_def
      batch_size_effect_figure_def)

lemma spec_example_view6: "\<not> isl (heatmaps_figure (labelled spec_example))"
  by (simp add: frame_defs pandas_defs groupby2_mean_unstack_def unstack_def heatmap_def
      pivot_scale_def heatmaps_figure_def)

lemma spec_example_view7: "\<not> isl (batch_analysis_figure (labelled spec_example))"
  by (simp add: frame_defs pandas_defs variant_lines_def variants_def batch_analysis_figure_def)

subsection \<open>Running main\<close>

lemma andthen_None: "f w = (None, w1) \<Longrightarrow> andthen f g w = g w1"
  by (simp add: andthen_def)

lemma andthen_Some: "f w = (Some e, w1) \<Longrightarrow> andthen f g w = (Some e, w1)"
  by (simp add: andthen_def)

lemma emit_Inr: "emit (Inr f) output_dir name w = (None, save_both output_dir name f w)"
  by (simp add: emit_def)

lemma emit_Inl: "emit (Inl e) output_dir name w = (Some e, w)"
  by (simp add: emit_def)

lemma print_unique_eq:
  "print_unique title d df w =
     (if Dim d \<in> set (header df)
      then (None, w\<lparr>console := console w @ [[Txt title, Nums (observed d (rows df))]]\<rparr>)
      else (Some (KeyError (Dim d)), w))"
  by (simp add: print_unique_def unique_sorted_eq print_line_def)

lemma data_summary_ok:
  assumes "Dim Batch_size \<in> set (header df)" and "Dim Entry_size_bytes \<in> set (header df)"
    and "Dim Consumers \<in> set (header df)" and "Dim Use_encryption \<in> set (header df)"
    and "Dim Compression_level \<in> set (header df)"
  shows "data_summary df w = (None, w\<lparr>console := console w @ summary_lines df\<rparr>)"
  using assms
  by (simp add: data_summary_def andthen_def say_def print_line_def print_unique_eq
      summary_lines_def)

lemma data_summary_no_batch_size:
  assumes "Dim Batch_size \<notin> set (header df)"
  shows "data_summary df w =
     (Some (KeyError (Dim Batch_size)), w\<lparr>console := console w @ take 2 (summary_lines df)\<rparr>)"
  using assms
  by (simp add: data_summary_def andthen_def say_def print_line_def print_unique_eq
      summary_lines_def)

lemma data_summary_no_consumers:
  assumes "Dim Batch_size \<in> set (header df)" and "Dim Entry_size_bytes \<in> set (header df)"
    and "Dim Consumers \<notin> set (header df)"
  shows "data_summary df w =
     (Some (KeyError (Dim Consumers)), w\<lparr>console := console w @ take 4 (summary_lines df)\<rparr>)"
  using assms
  by (simp add: data_summary_def andthen_def say_def print_line_def print_unique_eq
      summary_lines_def)

lemma load_gdpr_data_labelled:
  "load_gdpr_data input_file fs = Inr df \<longleftrightarrow>
     (\<exists>t. read_csv input_file fs = Inr t
        \<and> Dim Use_encryption \<in> set (header t)
        \<and> Dim Compression_level \<in> set (header t)
        \<and> Dim Entry_size_bytes \<in> set (header t)
        \<and> df = labelled t)"
  by (simp add: load_gdpr_data_Inr labelled_def)

lemma load_gdpr_data_isl:
  "isl (load_gdpr_data input_file fs) \<longleftrightarrow>
     (isl (read_csv input_file fs)
      \<or> (\<exists>t. read_csv input_file fs = Inr t
            \<and> (Dim Use_encryption \<notin> set (header t)
               \<or> Dim Compression_level \<notin> set (header t)
               \<or> Dim Entry_size_bytes \<notin> set (header t))))"
  by (cases "read_csv input_file fs") (auto simp: load_gdpr_data_def dim_column_def)

lemma header_labelled [simp]: "Dim d \<in> set (header (labelled t)) \<longleftrightarrow> Dim d \<in> set (header t)"
  "Metric m \<in> set (header (labelled t)) \<longleftrightarrow> Metric m \<in> set (header t)"
  by (auto simp: labelled_def)

lemma summary_lines_quiet:
  "[Txt ''Generating plots...''] \<notin> set (summary_lines df)"
  by (simp add: summary_lines_def)

lemma main_fails_at_view:
  assumes load: "load_gdpr_data input_file (files w) = Inr df"
    and summary: "data_summary df
        (print_line [Txt ''Loading data from '', Txt input_file, Txt ''...''] w) = (None, w0)"
    and before: "run_all (take k (views df output_dir))
        (print_line [Txt ''Generating plots...''] w0) = (None, wk)"
    and k: "k < length (views df output_dir)"
    and fails: "(views df output_dir ! k) wk = (Some e, wk')"
  shows "main input_file output_dir w = (Some e, wk')"
proof -
  have split: "views df output_dir =
      take k (views df output_dir) @ (views df output_dir ! k) # drop (Suc k) (views df output_dir)"
    using k by (simp add: id_take_nth_drop)
  have run_append: "run_all (as @ bs) w1 = run_all bs w2" if "run_all as w1 = (None, w2)"
    for as bs w1 w2
    using that by (induction as arbitrary: w1) (auto simp: andthen_def split: option.splits prod.splits)
  have "run_all (views df output_dir) (print_line [Txt ''Generating plots...''] w0)
      = run_all ((views df output_dir ! k) # drop (Suc k) (views df output_dir)) wk"
    by (subst split) (rule run_append[OF before])
  also have "\<dots> = (Some e, wk')"
    using fails by (simp add: andthen_def)
  finally have gen: "generate_plots df output_dir (print_line [Txt ''Generating plots...''] w0)
      = (Some e, wk')"
    by (simp add: generate_plots_run_all)
  show ?thesis
    unfolding main_eq load report_def
    by (simp add: andthen_def summary say_def gen)
qed

lemma failed_view_changes_nothing:
  assumes "a \<in> set (views df output_dir)" and "a w = (Some e, w')"
  shows "w' = w"
proof -
  have emit_case: "w' = w" if "emit fig output_dir name w = (Some e, w')" for fig name
    using that by (cases fig) (simp_all add: emit_def)
  from assms(1) consider
      "a = create_encryption_effect_plots df output_dir"
    | "a = create_compression_effect_plots df output_dir"
    | "a = create_entry_size_effect_plots df output_dir"
    | "a = create_writer_threads_effect_plots df output_dir"
    | "a = create_batch_size_effect_plots df output_dir"
    | "a = create_heatmaps df output_dir"
    | "a = create_encryption_batch_analysis_plot df output_dir"
    by (auto simp: views_def)
  then show ?thesis
  proof cases
    case 7
    show ?thesis
    proof (cases "filter_eq2 Compression_level 0 Use_encryption 1 df")
      case (Inl e')
      with assms(2) 7 show ?thesis
        by (simp add: create_encryption_batch_analysis_plot_def)
    next
      case (Inr fdf)
      show ?thesis
      proof (cases "empty fdf")
        case True
        with assms(2) 7 Inr show ?thesis
          by (simp add: create_encryption_batch_analysis_plot_def)
      next
        case False
        show ?thesis
        proof (cases "batch_analysis_figure fdf")
          case (Inl e')
          with assms(2) 7 Inr False show ?thesis
            by (simp add: create_encryption_batch_analysis_plot_def)
        next
          case fig: (Inr fig)
          from batch_analysis_figure_header[OF fig]
          have h: "Dim Consumers \<in> set (header fdf)" "Dim Entry_size_bytes \<in> set (header fdf)"
            by simp_all
          from assms(2) 7 Inr False fig show ?thesis
            by (simp add: create_encryption_batch_analysis_plot_def print_variants_header[OF h])
        qed
      qed
    qed
  qed (use assms(2) emit_case in \<open>auto simp: create_encryption_effect_plots_def
        create_compression_effect_plots_def create_entry_size_effect_plots_def
        create_writer_threads_effect_plots_def create_batch_size_effect_plots_def
        create_heatmaps_def\<close>)
qed

subsection \<open>Example tables\<close>

lemmas example_defs = labelled_def add_labels_def all_columns_def param_row_def
  encryption_map_def compression_map_def entry_size_map_def

lemma observed_code: "observed d rs = sort (remdups (map (dim_val d) rs))"
  by (simp add: observed_def sorted_list_of_set_sort_remdups flip: set_map)

lemma load_world_with:
  assumes "Dim Use_encryption \<in> set (header t)" and "Dim Compression_level \<in> set (header t)"
    and "Dim Entry_size_bytes \<in> set (header t)"
  shows "load_gdpr_data default_input_file (files (world_with t)) = Inr (labelled t)"
  using assms by (simp add: load_gdpr_data_labelled read_csv_def world_with_def)

subsection \<open>A table without the data-throughput column\<close>

lemmas figure_eval = example_defs unique_sorted_def dim_column_def filter_eq_def filter_eq2_def
  empty_def groupby_mean_def group_sums_def group_means_def index_def values_of_def
  fallback_values_def py_index_def hatches_def arange_def bar_def

lemma no_throughput_view1: "\<not> isl (encryption_effect_figure (labelled no_throughput))"
  by (simp add: no_throughput_def figure_eval encryption_axes_def encryption_effect_figure_def)

lemma no_throughput_view2: "\<not> isl (compression_effect_figure (labelled no_throughput))"
  by (simp add: no_throughput_def figure_eval fallback_bars_def compression_label_of_def
      encryption_settings_def compression_effect_figure_def)

lemma no_throughput_view3:
  "entry_size_effect_figure (labelled no_throughput)
     = Inl (KeyError (Metric Logical_throughput_gib_sec))"
  by (simp add: no_throughput_def figure_eval fallback_bars_def kb_label_def
      encryption_settings_def entry_size_effect_figure_def)

lemma files_save_both:
  "files (save_both output_dir name fig w) p =
     (if p = path_join output_dir (name @ ''.pdf'') then Some (Image PDF fig)
      else if p = path_join output_dir (name @ ''.png'') then Some (Image PNG fig)
      else files w p)"
  by (simp add: save_both_def savefig_def)

lemma no_throughput_run:
  "\<exists>f1 f2. main default_input_file default_output_dir (world_with no_throughput) =
     (Some (KeyError (Metric Logical_throughput_gib_sec)),
      save_both default_output_dir ''compression_effect'' f2
        (save_both default_output_dir ''encryption_effect'' f1
          ((world_with no_throughput)\<lparr>console :=
              [Txt ''Loading data from '', Txt default_input_file, Txt ''...'']
              # summary_lines (labelled no_throughput) @ [[Txt ''Generating plots...'']]\<rparr>)))"
proof -
  let ?df = "labelled no_throughput"
  let ?w = "world_with no_throughput"
  let ?l = "[Txt ''Loading data from '', Txt default_input_file, Txt ''...'']"
  let ?w1 = "?w\<lparr>console := ?l # summary_lines ?df @ [[Txt ''Generating plots...'']]\<rparr>"
  from no_throughput_view1 obtain f1 where f1: "encryption_effect_figure ?df = Inr f1"
    by (cases "encryption_effect_figure ?df") simp_all
  from no_throughput_view2 obtain f2 where f2: "compression_effect_figure ?df = Inr f2"
    by (cases "compression_effect_figure ?df") simp_all
  have load: "load_gdpr_data default_input_file (files ?w) = Inr ?df"
    by (rule load_world_with) (simp_all add: no_throughput_def)
  have summary: "data_summary ?df (print_line ?l ?w)
      = (None, (print_line ?l ?w)\<lparr>console := console (print_line ?l ?w) @ summary_lines ?df\<rparr>)"
    by (rule data_summary_ok) (simp_all add: no_throughput_def)
  have w1: "print_line [Txt ''Generating plots...'']
      ((print_line ?l ?w)\<lparr>console := console (print_line ?l ?w) @ summary_lines ?df\<rparr>) = ?w1"
    by (simp add: print_line_def world_with_def)
  have before: "run_all (take 2 (views ?df default_output_dir)) ?w1 =
      (None, save_both default_output_dir ''compression_effect'' f2
               (save_both default_output_dir ''encryption_effect'' f1 ?w1))"
    by (simp add: views_def andthen_def create_encryption_effect_plots_def
        create_compression_effect_plots_def f1 f2 emit_Inr)
  have fails: "(views ?df default_output_dir ! 2)
        (save_both default_output_dir ''compression_effect'' f2
               (save_both default_output_dir ''encryption_effect'' f1 ?w1))
      = (Some (KeyError (Metric Logical_throughput_gib_sec)),
         save_both default_output_dir ''compression_effect'' f2
               (save_both default_output_dir ''encryption_effect'' f1 ?w1))"
    by (simp add: views_def create_entry_size_effect_plots_def no_throughput_view3 emit_Inl)
  have k: "2 < length (views ?df default_output_dir)" by (simp add: views_def)
  from main_fails_at_view[OF load summary before[unfolded w1[symmetric]] k
      fails[unfolded w1[symmetric]]]
  show ?thesis unfolding w1 by blast
qed

subsection \<open>A successful run\<close>

lemma fst_andthen_None:
  "fst (f w) = None \<Longrightarrow> (\<And>w'. fst (g w') = None) \<Longrightarrow> fst (andthen f g w) = None"
  by (cases "f w") (simp add: andthen_def)

lemma fst_emit: "\<not> isl fig \<Longrightarrow> fst (emit fig output_dir name w) = None"
  by (cases fig) (simp_all add: emit_def)

lemma spec_example_batch_analysis:
  "fst (create_encryption_batch_analysis_plot (labelled spec_example) output_dir w) = None"
proof -
  let ?df = "labelled spec_example"
  have f: "filter_eq2 Compression_level 0 Use_encryption 1 ?df = Inr ?df"
    by (simp add: filter_eq2_def frame_defs)
  have ne: "\<not> empty ?df" by (simp add: empty_def frame_defs)
  from spec_example_view7 obtain fig where fig: "batch_analysis_figure ?df = Inr fig"
    by (cases "batch_analysis_figure ?df") simp_all
  from batch_analysis_figure_header[OF fig]
  have h: "Dim Consumers \<in> set (header ?df)" "Dim Entry_size_bytes \<in> set (header ?df)"
    by simp_all
  show ?thesis
    by (simp add: create_encryption_batch_analysis_plot_def f ne fig print_variants_header[OF h])
qed

lemma spec_example_run:
  "fst (main default_input_file default_output_dir (world_with spec_example)) = None"
proof -
  let ?df = "labelled spec_example"
  let ?w = "world_with spec_example"
  let ?l = "[Txt ''Loading data from '', Txt default_input_file, Txt ''...'']"
  have load: "load_gdpr_data default_input_file (files ?w) = Inr ?df"
    by (rule load_world_with) (simp_all add: spec_example_def all_columns_def)
  have summary: "fst (data_summary ?df w) = None" for w
    by (subst data_summary_ok) (simp_all add: spec_example_def all_columns_def)
  have plots: "fst (generate_plots ?df default_output_dir w) = None" for w
    unfolding generate_plots_def
    by (intro fst_andthen_None spec_example_batch_analysis)
       (simp_all add: create_encryption_effect_plots_def create_compression_effect_plots_def
          create_entry_size_effect_plots_def create_writer_threads_effect_plots_def
          create_batch_size_effect_plots_def create_heatmaps_def fst_emit
          spec_example_view1 spec_example_view2 spec_example_view3 spec_example_view4
          spec_example_view5 spec_example_view6)
  have "fst (report ?df default_output_dir w) = None" for w
    unfolding report_def
    by (intro fst_andthen_None summary plots) (simp_all add: say_def print_plot_summary_def)
  then show ?thesis
    by (simp add: main_eq load)
qed

lemma default_input_is_no_output:
  "default_input_file \<notin> set (output_paths default_output_dir)"
  by (simp add: output_paths_def path_join_def default_input_file_def default_output_dir_def)

subsection \<open>Tables on which the first view raises\<close>

lemma encrypted_two_batches_view1:
  "encryption_effect_figure (labelled encrypted_two_batches) = Inl ValueError"
  by (simp add: encrypted_two_batches_def figure_eval encryption_axes_def
      encryption_effect_figure_def)

lemma unencrypted_two_sizes_view1:
  "encryption_effect_figure (labelled unencrypted_two_sizes) = Inl ValueError"
  by (simp add: unencrypted_two_sizes_def figure_eval encryption_axes_def
      encryption_effect_figure_def)

lemma encrypted_two_batches_view7:
  "\<not> isl (batch_analysis_figure (labelled encrypted_two_batches))"
  by (simp add: encrypted_two_batches_def figure_eval variant_lines_def variants_def
      batch_analysis_figure_def)

lemma summary_lines_encrypted_two_batches:
  "summary_lines (labelled encrypted_two_batches) =
     [[Txt ''Loaded '', Num 2, Txt '' benchmark results''],
      [Txt ''Data summary:''],
      [Txt ''  - Batch sizes: '', Nums [512, 1024]],
      [Txt ''  - Entry sizes: '', Nums [1024]],
      [Txt ''  - Writer threads: '', Nums [4]],
      [Txt ''  - Encryption settings: '', Nums [1]],
      [Txt ''  - Compression levels: '', Nums [0]]]"
  by (simp add: summary_lines_def observed_code encrypted_two_batches_def example_defs)

lemma summary_lines_unencrypted_two_sizes:
  "summary_lines (labelled unencrypted_two_sizes) =
     [[Txt ''Loaded '', Num 2, Txt '' benchmark results''],
      [Txt ''Data summary:''],
      [Txt ''  - Batch sizes: '', Nums [512]],
      [Txt ''  - Entry sizes: '', Nums [1024, 4096]],
      [Txt ''  - Writer threads: '', Nums [4]],
      [Txt ''  - Encryption settings: '', Nums [0]],
      [Txt ''  - Compression levels: '', Nums [0]]]"
  by (simp add: summary_lines_def observed_code unencrypted_two_sizes_def example_defs)

subsection \<open>Axis keys on the example\<close>

lemma xkeys_of_result:
  assumes "\<not> isl r" and "\<And>fig. r = Inr fig \<Longrightarrow> map xkeys fig = ks"
  shows "map_sum id (map xkeys) r = Inr ks"
  using assms by (cases r) simp_all

lemma observed_spec_example:
  "observed Batch_size (rows (labelled spec_example)) = [512]"
  "observed Entry_size_bytes (rows (labelled spec_example)) = [1024]"
  "observed Consumers (rows (labelled spec_example)) = [4]"
  "observed Use_encryption (rows (labelled spec_example)) = [1]"
  "observed Compression_level (rows (labelled spec_example)) = [0]"
  by (simp_all add: observed_code frame_defs)

subsection \<open>Values of the charts with a fallback\<close>





lemma chart_default_simps [simp]:
  "chart_default Write_amplification = 1"
  "chart_default Entries_per_sec = 0"
  "chart_default Avg_latency_ms = 0"
  "chart_default Logical_throughput_gib_sec = 0"
  by (simp_all add: chart_default_def)






lemmas two_levels_defs = two_levels_def level_row_def labelled_def add_labels_def all_columns_def
  encryption_map_def compression_map_def entry_size_map_def





lemma four_axes:
  assumes "\<not> isl r" and "\<And>fig. r = Inr fig \<Longrightarrow> length fig = 4"
  obtains a1 a2 a3 a4 where "r = Inr [a1, a2, a3, a4]"
proof -
  from assms(1) obtain fig where fig: "r = Inr fig" by (cases r) simp_all
  with assms(2) have "length fig = 4" by simp
  then obtain a1 a2 a3 a4 where "fig = [a1, a2, a3, a4]"
    by (auto simp: length_Suc_conv numeral_eq_Suc)
  with fig that show ?thesis by simp
qed

lemma length_of_xkeys: "map xkeys fig = ks \<Longrightarrow> length fig = length ks"
  by (metis length_map)


subsection \<open>The lines of the batch-analysis view\<close>

lemma present_points_values:
  "map snd (present_points f data (enumerate n keys)) =
     map (\<lambda>k. f (the (map_of data k))) (filter (\<lambda>k. map_of data k \<noteq> None) keys)"
  by (induction keys arbitrary: n) (auto split: option.splits)

lemma present_points_group:
  "map snd (present_points f (group_means (group_sums (dim_val kd) (metric_val m) rs))
              (enumerate n keys)) =
     map (\<lambda>k. f (mean_of (metric_val m) (rows_with kd k rs)))
       (filter (\<lambda>k. k \<in> dim_val kd ` set rs) keys)"
proof -
  have "filter (\<lambda>k. map_of (group_means (group_sums (dim_val kd) (metric_val m) rs)) k \<noteq> None) keys
      = filter (\<lambda>k. k \<in> dim_val kd ` set rs) keys"
    by (simp add: group_means_lookup)
  then show ?thesis
    unfolding present_points_values
    by (simp add: group_means_lookup mean_of_def rows_with_def cong: map_cong)
qed

lemma variant_lines_Inr:
  assumes "variant_lines f m keys fdf = Inr a"
  shows "draws a = concat (map (variant_line f m keys (rows fdf)) variants)"
proof -
  let ?body = "\<lambda>((c, e), lab).
              ebind (filter_eq2 Consumers c Entry_size_bytes e fdf) (\<lambda>variant_df.
              if empty variant_df then Inr []
              else ebind (groupby_mean Batch_size m variant_df) (\<lambda>data.
                   let pts = present_points f data (enumerate 0 keys)
                   in Inr [Line (map fst pts) (map snd pts) [Txt lab]]))"
  from assms obtain lines where lines: "emap ?body variants = Inr lines"
    and a: "a = \<lparr>xkeys = keys, draws = concat lines\<rparr>"
    unfolding variant_lines_def by (auto simp: ebind_Inr_iff)
  have "y = variant_line f m keys (rows fdf) v" if "?body v = Inr y" for v y
  proof -
    obtain c e lab where v: "v = ((c, e), lab)" by (cases v) auto
    from that v obtain vdf
      where s: "filter_eq2 Consumers c Entry_size_bytes e fdf = Inr vdf"
        and y: "(if empty vdf then Inr []
              else ebind (groupby_mean Batch_size m vdf) (\<lambda>data.
                   let pts = present_points f data (enumerate 0 keys)
                   in Inr [Line (map fst pts) (map snd pts) [Txt lab]])) = Inr y"
      by (auto simp: ebind_Inr_iff)
    from filter_eq2_Inr[OF s]
    have sub: "vdf = Frame (header fdf) (variant_rows (c, e) (rows fdf))"
      by (simp add: variant_rows_def)
    show ?thesis
    proof (cases "empty vdf")
      case True
      with y sub v show ?thesis by (simp add: variant_line_def empty_def)
    next
      case False
      with y obtain data where "groupby_mean Batch_size m vdf = Inr data"
        and "y = (let pts = present_points f data (enumerate 0 keys)
                  in [Line (map fst pts) (map snd pts) [Txt lab]])"
        by (auto simp: ebind_Inr_iff Let_def)
      with False sub v show ?thesis
        by (auto simp: variant_line_def empty_def dest!: groupby_mean_Inr)
    qed
  qed
  with lines have "lines = map (variant_line f m keys (rows fdf)) variants"
    by (intro emap_Inr_map[where f = ?body]) auto
  with a show ?thesis by simp
qed

lemma heights_variant_line:
  "map heights (concat (map (variant_line f m keys rs) vs)) =
     map (\<lambda>c. map (\<lambda>bs. f (mean_of (metric_val m) (rows_with Batch_size bs (variant_rows c rs))))
                  (filter (\<lambda>bs. bs \<in> batch_size ` set (variant_rows c rs)) keys))
       (filter (\<lambda>c. variant_rows c rs \<noteq> []) (map fst vs))"
  by (induction vs)
     (auto simp: variant_line_def heights_def Let_def present_points_group)

lemma metric_val_write_amplification: "metric_val Write_amplification = write_amplification"
  by (rule ext) simp

lemma batch_analysis_values:
  assumes "batch_analysis_figure fdf = Inr [left, right]"
  shows "map heights (draws left) =
           variant_line_values (\<lambda>v. v / 1000) Entries_per_sec (observed Batch_size (rows fdf))
             (rows fdf)"
    and "map heights (draws right) = percent_values (rows fdf)"
proof -
  from assms obtain
      l: "variant_lines (\<lambda>v. v / 1000) Entries_per_sec (observed Batch_size (rows fdf)) fdf
            = Inr left"
    and r: "variant_lines (\<lambda>v. (v - 1) * 100) Write_amplification
            (observed Batch_size (rows fdf)) fdf = Inr right"
    unfolding batch_analysis_figure_def
    by (auto simp: ebind_Inr_iff dest!: unique_sorted_Inr)
  show "map heights (draws left) =
           variant_line_values (\<lambda>v. v / 1000) Entries_per_sec (observed Batch_size (rows fdf))
             (rows fdf)"
    by (simp add: variant_lines_Inr[OF l] heights_variant_line variant_line_values_def)
  show "map heights (draws right) = percent_values (rows fdf)"
    by (simp add: variant_lines_Inr[OF r] heights_variant_line percent_values_def
        metric_val_write_amplification)
qed

lemma percent_example_figure: "\<not> isl (batch_analysis_figure (labelled percent_example))"
  by (simp add: percent_example_def two_levels_defs pandas_defs variant_lines_def variants_def
      batch_analysis_figure_def)

subsection \<open>The scaling-efficiency subplot\<close>

lemma observed_nonempty:
  assumes "rs \<noteq> []"
  shows "observed d rs \<noteq> []" and "observed d rs ! 0 = Min (dim_val d ` set rs)"
proof -
  have "finite (dim_val d ` set rs)" and "dim_val d ` set rs \<noteq> {}"
    using assms by simp_all
  then have "observed d rs = Min (dim_val d ` set rs)
      # sorted_list_of_set (dim_val d ` set rs - {Min (dim_val d ` set rs)})"
    unfolding observed_def by (rule sorted_list_of_set_nonempty)
  then show "observed d rs \<noteq> []" and "observed d rs ! 0 = Min (dim_val d ` set rs)"
    by simp_all
qed

lemma dim_val_consumers: "dim_val Consumers = consumers"
  by (rule ext) simp

lemma metric_val_entries_per_sec: "metric_val Entries_per_sec = entries_per_sec"
  by (rule ext) simp

lemma ebind_InrE:
  assumes "ebind m f = Inr y"
  obtains x where "m = Inr x" and "f x = Inr y"
  using assms by (auto simp: ebind_Inr_iff)

lemma scaling_line_Inr:
  assumes "scaling_line (observed Consumers (rows df)) df es = Inr y"
  shows "y = scaling_series (rows df) es"
proof -
  let ?cl = "observed Consumers (rows df)"
  let ?sub = "rows_with Entry_size_bytes es (rows df)"
  from assms[unfolded scaling_line_def] obtain sub
    where s: "filter_eq Entry_size_bytes es df = Inr sub"
      and r1: "ebind (groupby_mean Consumers Entries_per_sec sub) (\<lambda>data.
         ebind (py_index ?cl 0) (\<lambda>c0.
         case map_of data c0 of
           None \<Rightarrow> Inr []
         | Some baseline \<Rightarrow>
             if baseline > 0
             then Inr [Line (map real_of_int ?cl)
                     (fallback_values (\<lambda>v. v / baseline) 0 data ?cl) (kb_label es)]
             else Inr [])) = Inr y"
    by (rule ebind_InrE)
  from r1 obtain data
    where g: "groupby_mean Consumers Entries_per_sec sub = Inr data"
      and r2: "ebind (py_index ?cl 0) (\<lambda>c0.
         case map_of data c0 of
           None \<Rightarrow> Inr []
         | Some baseline \<Rightarrow>
             if baseline > 0
             then Inr [Line (map real_of_int ?cl)
                     (fallback_values (\<lambda>v. v / baseline) 0 data ?cl) (kb_label es)]
             else Inr []) = Inr y"
    by (rule ebind_InrE)
  from r2 obtain c0
    where c0: "py_index ?cl 0 = Inr c0"
      and y: "(case map_of data c0 of
           None \<Rightarrow> Inr []
         | Some baseline \<Rightarrow>
             if baseline > 0
             then Inr [Line (map real_of_int ?cl)
                     (fallback_values (\<lambda>v. v / baseline) 0 data ?cl) (kb_label es)]
             else Inr []) = (Inr y :: error + draw list)"
    by (rule ebind_InrE)
  from s g
  have data: "data = group_means (group_sums (dim_val Consumers) (metric_val Entries_per_sec) ?sub)"
    by (auto simp: rows_with_def dest!: filter_eq_Inr groupby_mean_Inr)
  from c0 have ne: "?cl \<noteq> []" and c0': "c0 = ?cl ! 0"
    by (auto simp: py_index_def split: if_splits)
  from ne have "rows df \<noteq> []" by (auto simp: observed_def)
  then have c0min: "c0 = Min (consumers ` set (rows df))"
    using c0' by (simp add: observed_nonempty dim_val_consumers)
  have look: "map_of data c0 =
      (if c0 \<in> consumers ` set ?sub
       then Some (mean_of entries_per_sec (rows_with Consumers c0 ?sub)) else None)"
    unfolding data
    by (simp add: group_means_lookup mean_of_def rows_with_def dim_val_consumers
        metric_val_entries_per_sec)
  have vals: "fallback_values (\<lambda>v. v / b) 0 data ?cl =
      map (\<lambda>c. if c \<in> consumers ` set ?sub
                then mean_of entries_per_sec (rows_with Consumers c ?sub) / b else 0) ?cl" for b
    unfolding data fallback_values_group
    by (simp add: plotted_def rows_with_def dim_val_consumers metric_val_entries_per_sec)
  from y show ?thesis
    unfolding look vals
    by (auto simp: scaling_series_def baseline_of_def c0min split: if_splits)
qed

lemma scaling_axes_Inr:
  assumes "scaling_axes (observed Consumers (rows df)) df = Inr a"
  shows "a = \<lparr>xkeys = observed Consumers (rows df),
            draws = concat (map (scaling_series (rows df)) (observed Entry_size_bytes (rows df)))
              @ [IdealLine (map real_of_int (observed Consumers (rows df)))
                   (ideal_scaling (observed Consumers (rows df))) [Txt ''Ideal Scaling'']]\<rparr>"
proof -
  from assms obtain lines
    where lines: "emap (scaling_line (observed Consumers (rows df)) df)
                    (observed Entry_size_bytes (rows df)) = Inr lines"
      and a: "a = \<lparr>xkeys = observed Consumers (rows df),
            draws = concat lines
              @ [IdealLine (map real_of_int (observed Consumers (rows df)))
                   (ideal_scaling (observed Consumers (rows df))) [Txt ''Ideal Scaling'']]\<rparr>"
    unfolding scaling_axes_def by (auto simp: ebind_Inr_iff dest!: unique_sorted_Inr)
  from lines have "lines = map (scaling_series (rows df)) (observed Entry_size_bytes (rows df))"
    by (rule emap_Inr_map) (rule scaling_line_Inr)
  with a show ?thesis by simp
qed

lemma scaling_line_total:
  assumes "Dim Entry_size_bytes \<in> set (header df)" and "Dim Consumers \<in> set (header df)"
    and "Metric Entries_per_sec \<in> set (header df)" and "rows df \<noteq> []"
  shows "\<not> isl (scaling_line (observed Consumers (rows df)) df es)"
  using assms observed_nonempty(1)[OF assms(4), of Consumers]
  by (simp add: scaling_line_def filter_eq_def groupby_mean_def py_index_def
      split: option.splits)

lemma emap_total: "(\<And>x. x \<in> set xs \<Longrightarrow> \<not> isl (f x)) \<Longrightarrow> \<not> isl (emap f xs)"
proof (induction xs)
  case Nil
  then show ?case by simp
next
  case (Cons x xs)
  then obtain y ys where "f x = Inr y" and "emap f xs = Inr ys"
    by (metis list.set_intros(1,2) sum.collapse(2))
  then show ?case by simp
qed

lemma scaling_axes_total:
  assumes "Dim Entry_size_bytes \<in> set (header df)" and "Dim Consumers \<in> set (header df)"
    and "Metric Entries_per_sec \<in> set (header df)"
  shows "\<not> isl (scaling_axes (observed Consumers (rows df)) df)"
proof -
  have "\<not> isl (emap (scaling_line (observed Consumers (rows df)) df)
                 (observed Entry_size_bytes (rows df)))"
  proof (rule emap_total)
    fix es assume "es \<in> set (observed Entry_size_bytes (rows df))"
    then have "rows df \<noteq> []" by (auto simp: observed_def)
    with assms show "\<not> isl (scaling_line (observed Consumers (rows df)) df es)"
      by (rule scaling_line_total)
  qed
  then obtain lines where "emap (scaling_line (observed Consumers (rows df)) df)
                 (observed Entry_size_bytes (rows df)) = Inr lines"
    by (metis sum.collapse(2))
  then show ?thesis
    using assms(1) by (simp add: scaling_axes_def unique_sorted_eq)
qed

lemma scaling_example_view4: "\<not> isl (writer_threads_effect_figure (labelled scaling_example))"
  by (simp add: scaling_example_def two_levels_defs pandas_defs fallback_lines_def
      combination_lines_def kb_label_def batch_label_def enc_comp_combinations_def
      scaling_line_def scaling_axes_def ideal_scaling_def np_true_divide_def
      writer_threads_effect_figure_def)

lemma Min_set_Cons: "Min (set (x # xs)) = fold min xs x"
  by (rule Min.set_eq_fold)

subsection \<open>What each chart shows at a key without rows\<close>






















section \<open>The claims\<close>

text \<open>
  Claim C1. Grouping a frame by one parameter column and averaging a metric gives exactly
  one entry per distinct value of the column present in the frame, in ascending order,
  and the entry of a value is the arithmetic mean of the metric over exactly the rows
  holding that value; a value no row holds has no entry. The frame is any frame with the
  two columns: the whole table or a filtered subset, as in
  \<open>df[df['use_encryption'] == 0].groupby('batch_size')['entries_per_sec'].mean()\<close>.
  The witness is the example of the specification: two rows with batch size 512 and
  50000 and 70000 entries per second average to 60000 under key 512.
\<close>

theorem groupby_mean_per_distinct_key:
  assumes "Dim d \<in> set (header df)" and "Metric m \<in> set (header df)"
  shows "\<exists>data. groupby_mean d m df = Inr data
           \<and> index data = sorted_list_of_set (dim_val d ` set (rows df))
           \<and> (\<forall>k \<in> dim_val d ` set (rows df).
                 map_of data k =
                   Some (sum_list (map (metric_val m) (filter (\<lambda>r. dim_val d r = k) (rows df)))
                         / real (length (filter (\<lambda>r. dim_val d r = k) (rows df)))))
           \<and> (\<forall>k. k \<notin> dim_val d ` set (rows df) \<longrightarrow> map_of data k = None)"
  using assms
  by (simp add: groupby_mean_def index_def group_means_index group_means_lookup)

theorem groupby_mean_per_distinct_key_witness:
  "Dim Batch_size \<in> set (header spec_example)
   \<and> Metric Entries_per_sec \<in> set (header spec_example)
   \<and> groupby_mean Batch_size Entries_per_sec spec_example = Inr [(512, 60000)]"
proof -
  have h1: "Dim Batch_size \<in> set (header spec_example)"
    by (simp add: spec_example_def all_columns_def)
  have h2: "Metric Entries_per_sec \<in> set (header spec_example)"
    by (simp add: spec_example_def all_columns_def)
  from groupby_mean_per_distinct_key[OF h1 h2]
  obtain data where d: "groupby_mean Batch_size Entries_per_sec spec_example = Inr data"
    and i: "index data = sorted_list_of_set (dim_val Batch_size ` set (rows spec_example))"
    and v: "\<forall>k \<in> dim_val Batch_size ` set (rows spec_example).
              map_of data k =
                Some (sum_list (map (metric_val Entries_per_sec)
                        (filter (\<lambda>r. dim_val Batch_size r = k) (rows spec_example)))
                      / real (length (filter (\<lambda>r. dim_val Batch_size r = k) (rows spec_example))))"
    by blast
  from i have "map fst data = [512]"
    by (simp add: index_def spec_example_def spec_row_def)
  then obtain y where data: "data = [(512, y)]" by (cases data) auto
  from v have "map_of data 512 = Some 60000"
    by (simp add: spec_example_def spec_row_def)
  with data have "y = 60000" by simp
  with d data h1 h2 show ?thesis by simp
qed

text \<open>
  Claim C2. For every loaded dataset in which no row has \<open>compression_level == 0\<close> and
  \<open>use_encryption == 1\<close>, the batch-analysis view finds its filtered subset empty,
  prints the diagnostic line and returns without raising; the files of the world are
  unchanged, so \<open>batch_analysis.png\<close> and \<open>batch_analysis.pdf\<close> are neither created
  nor overwritten.
\<close>

theorem batch_analysis_skips_empty_subset:
  assumes "load_gdpr_data input_file fs = Inr df"
    and "\<forall>r \<in> set (rows df). \<not> (compression_level r = 0 \<and> use_encryption r = 1)"
  shows "\<exists>w'. create_encryption_batch_analysis_plot df output_dir w = (None, w')
           \<and> console w' = console w @ [[Txt ''No data found for compression=0 and encryption=1'']]
           \<and> files w' = files w"
proof -
  have "filter (\<lambda>r. compression_level r = 0 \<and> use_encryption r = 1) (rows df) = []"
    using assms(2) by (simp add: filter_empty_conv)
  then have "filter_eq2 Compression_level 0 Use_encryption 1 df = Inr (Frame (header df) [])"
    using loaded_header[OF assms(1)] by (simp add: filter_eq2_def)
  then show ?thesis
    by (simp add: create_encryption_batch_analysis_plot_def empty_def print_line_def)
qed

theorem batch_analysis_skips_empty_subset_witness:
  "load_gdpr_data ''results.csv'' unencrypted_fs =
     Inr (Frame (all_columns @ [Label Encryption_label, Label Compression_label,
                                Label Entry_size_label]) [add_labels unencrypted_row])
   \<and> \<not> (compression_level (add_labels unencrypted_row) = 0
          \<and> use_encryption (add_labels unencrypted_row) = 1)
   \<and> (\<exists>w'. create_encryption_batch_analysis_plot
              (Frame (all_columns @ [Label Encryption_label, Label Compression_label,
                                     Label Entry_size_label]) [add_labels unencrypted_row])
              ''gdpr_plots'' \<lparr>console = [], files = unencrypted_fs\<rparr> = (None, w')
           \<and> console w' = [[Txt ''No data found for compression=0 and encryption=1'']]
           \<and> files w' = unencrypted_fs)"
proof -
  let ?df = "Frame (all_columns @ [Label Encryption_label, Label Compression_label,
                                Label Entry_size_label]) [add_labels unencrypted_row]"
  have h: "\<forall>r \<in> set (rows ?df). \<not> (compression_level r = 0 \<and> use_encryption r = 1)"
    by (simp add: add_labels_def unencrypted_row_def)
  from batch_analysis_skips_empty_subset[OF load_unencrypted h,
      of "''gdpr_plots''" "\<lparr>console = [], files = unencrypted_fs\<rparr>"]
  show ?thesis using load_unencrypted h by simp
qed

text \<open>
  Claim C3, as amended. The claim says that a file lacking any of the nine columns makes
  the load fail before any chart work. The load only reads \<open>use_encryption\<close>,
  \<open>compression_level\<close> and \<open>entry_size_bytes\<close>, and nothing validates the header.
  What holds: the load raises exactly when the file cannot be read or parsed or lacks one
  of those three columns; when the file cannot be read or parsed, or lacks any of the
  five parameter columns (the other two, \<open>batch_size\<close> and \<open>consumers\<close>, are
  first read by the data summary that \<open>main\<close> prints), \<open>main\<close> ends with the
  exception before any view runs: no file is written and the line "Generating plots..."
  is not printed. A missing metric column is found only by the first view that reads it:
  in the counterexample the table lacks \<open>logical_throughput_gib_sec\<close>, the load
  succeeds, the first two views write their files, and the third raises \<open>KeyError\<close>.
\<close>

theorem missing_parameter_column_stops_before_charts:
  "(isl (load_gdpr_data input_file (files w)) \<longleftrightarrow>
      (isl (read_csv input_file (files w))
       \<or> (\<exists>t. read_csv input_file (files w) = Inr t
             \<and> (Dim Use_encryption \<notin> set (header t)
                \<or> Dim Compression_level \<notin> set (header t)
                \<or> Dim Entry_size_bytes \<notin> set (header t)))))
   \<and> (isl (read_csv input_file (files w))
        \<or> (\<exists>t d. read_csv input_file (files w) = Inr t \<and> Dim d \<notin> set (header t))
      \<longrightarrow> (\<exists>e ls. main input_file output_dir w = (Some e, w\<lparr>console := console w @ ls\<rparr>)
                  \<and> [Txt ''Generating plots...''] \<notin> set ls))"
proof (intro conjI impI)
  show "isl (load_gdpr_data input_file (files w)) \<longleftrightarrow>
      (isl (read_csv input_file (files w))
       \<or> (\<exists>t. read_csv input_file (files w) = Inr t
             \<and> (Dim Use_encryption \<notin> set (header t)
                \<or> Dim Compression_level \<notin> set (header t)
                \<or> Dim Entry_size_bytes \<notin> set (header t))))"
    by (rule load_gdpr_data_isl)
next
  let ?l = "[Txt ''Loading data from '', Txt input_file, Txt ''...'']"
  assume a: "isl (read_csv input_file (files w))
        \<or> (\<exists>t d. read_csv input_file (files w) = Inr t \<and> Dim d \<notin> set (header t))"
  show "\<exists>e ls. main input_file output_dir w = (Some e, w\<lparr>console := console w @ ls\<rparr>)
                  \<and> [Txt ''Generating plots...''] \<notin> set ls"
  proof (cases "load_gdpr_data input_file (files w)")
    case (Inl e)
    then have "main input_file output_dir w = (Some e, w\<lparr>console := console w @ [?l]\<rparr>)"
      by (simp add: main_eq print_line_def)
    moreover have "[Txt ''Generating plots...''] \<notin> set [?l]" by simp
    ultimately show ?thesis by blast
  next
    case (Inr df)
    then obtain t where t: "read_csv input_file (files w) = Inr t"
      and ue: "Dim Use_encryption \<in> set (header t)"
      and cl: "Dim Compression_level \<in> set (header t)"
      and es: "Dim Entry_size_bytes \<in> set (header t)"
      and df: "df = labelled t"
      by (auto simp: load_gdpr_data_labelled)
    from a t obtain d where d: "Dim d \<notin> set (header t)" by auto
    with ue cl es have "d = Batch_size \<or> d = Consumers" by (cases d) auto
    then consider "Dim Batch_size \<notin> set (header df)"
      | "Dim Batch_size \<in> set (header df)" "Dim Consumers \<notin> set (header df)"
      using d df by auto
    then show ?thesis
    proof cases
      case 1
      have "main input_file output_dir w =
          (Some (KeyError (Dim Batch_size)),
           w\<lparr>console := console w @ (?l # take 2 (summary_lines df))\<rparr>)"
        by (simp add: main_eq Inr report_def andthen_def data_summary_no_batch_size[OF 1]
            print_line_def)
      moreover have "[Txt ''Generating plots...''] \<notin> set (?l # take 2 (summary_lines df))"
        by (simp add: summary_lines_def)
      ultimately show ?thesis by blast
    next
      case 2
      have esd: "Dim Entry_size_bytes \<in> set (header df)" using es df by simp
      have "main input_file output_dir w =
          (Some (KeyError (Dim Consumers)),
           w\<lparr>console := console w @ (?l # take 4 (summary_lines df))\<rparr>)"
        by (simp add: main_eq Inr report_def andthen_def
            data_summary_no_consumers[OF 2(1) esd 2(2)] print_line_def)
      moreover have "[Txt ''Generating plots...''] \<notin> set (?l # take 4 (summary_lines df))"
        by (simp add: summary_lines_def)
      ultimately show ?thesis by blast
    qed
  qed
qed

theorem missing_parameter_column_stops_before_charts_witness:
  "read_csv default_input_file (files (world_with no_batch_size)) = Inr no_batch_size
   \<and> Dim Batch_size \<notin> set (header no_batch_size)
   \<and> \<not> isl (load_gdpr_data default_input_file (files (world_with no_batch_size)))
   \<and> (\<exists>e ls. main default_input_file default_output_dir (world_with no_batch_size)
               = (Some e, (world_with no_batch_size)\<lparr>console := ls\<rparr>)
            \<and> [Txt ''Generating plots...''] \<notin> set ls)"
proof -
  have r: "read_csv default_input_file (files (world_with no_batch_size)) = Inr no_batch_size"
    by (simp add: read_csv_def world_with_def)
  have h: "Dim Batch_size \<notin> set (header no_batch_size)"
    by (simp add: no_batch_size_def)
  from r h have hyp: "isl (read_csv default_input_file (files (world_with no_batch_size)))
        \<or> (\<exists>t d. read_csv default_input_file (files (world_with no_batch_size)) = Inr t
               \<and> Dim d \<notin> set (header t))"
    by blast
  from missing_parameter_column_stops_before_charts
    [of default_input_file "world_with no_batch_size" default_output_dir] hyp r
  have l: "\<not> isl (load_gdpr_data default_input_file (files (world_with no_batch_size)))"
    and m: "\<exists>e ls. main default_input_file default_output_dir (world_with no_batch_size)
               = (Some e, (world_with no_batch_size)\<lparr>console :=
                    console (world_with no_batch_size) @ ls\<rparr>)
            \<and> [Txt ''Generating plots...''] \<notin> set ls"
    by (simp_all add: no_batch_size_def)
  from m have "\<exists>e ls. main default_input_file default_output_dir (world_with no_batch_size)
               = (Some e, (world_with no_batch_size)\<lparr>console := ls\<rparr>)
            \<and> [Txt ''Generating plots...''] \<notin> set ls"
    by (simp add: world_with_def)
  with r h l show ?thesis by blast
qed

theorem missing_metric_column_counterexample:
  "Metric Logical_throughput_gib_sec \<notin> set (header no_throughput)
   \<and> \<not> isl (load_gdpr_data default_input_file (files (world_with no_throughput)))
   \<and> fst (main default_input_file default_output_dir (world_with no_throughput))
       = Some (KeyError (Metric Logical_throughput_gib_sec))
   \<and> files (snd (main default_input_file default_output_dir (world_with no_throughput)))
        ''gdpr_plots/encryption_effect.png'' \<noteq> None
   \<and> files (snd (main default_input_file default_output_dir (world_with no_throughput)))
        ''gdpr_plots/compression_effect.pdf'' \<noteq> None"
proof -
  have "load_gdpr_data default_input_file (files (world_with no_throughput))
      = Inr (labelled no_throughput)"
    by (rule load_world_with) (simp_all add: no_throughput_def)
  moreover have "Metric Logical_throughput_gib_sec \<notin> set (header no_throughput)"
    by (simp add: no_throughput_def)
  moreover from no_throughput_run obtain f1 f2 where
    "main default_input_file default_output_dir (world_with no_throughput) =
     (Some (KeyError (Metric Logical_throughput_gib_sec)),
      save_both default_output_dir ''compression_effect'' f2
        (save_both default_output_dir ''encryption_effect'' f1
          ((world_with no_throughput)\<lparr>console :=
              [Txt ''Loading data from '', Txt default_input_file, Txt ''...'']
              # summary_lines (labelled no_throughput) @ [[Txt ''Generating plots...'']]\<rparr>)))"
    by blast
  ultimately show ?thesis
    by (simp add: files_save_both path_join_def default_output_dir_def)
qed

text \<open>
  Claim C4, as amended. The claim says that the driver logs the failure of a view and
  still runs the views after it. \<open>main\<close> has no exception handling: the seven views
  are seven calls in a row. What holds: when the first \<open>k\<close> views finish and the next
  one raises, \<open>main\<close> ends with that exception in the world the \<open>k\<close> views left;
  the failing view has changed nothing, no later view runs and the closing lines are not
  printed. (An empty subset that a view guards is no failure: the view returns and the
  next one runs, see C2.) In the counterexample every row is encrypted and there are two
  batch sizes: the first view passes the empty series of the unencrypted rows to
  \<open>ax.bar\<close> against two positions and raises \<open>ValueError\<close>; \<open>main\<close> ends
  there, and the file that the batch-analysis view writes on this table is not written.
\<close>

theorem failing_view_ends_run:
  assumes "load_gdpr_data input_file (files w) = Inr df"
    and "data_summary df
        (print_line [Txt ''Loading data from '', Txt input_file, Txt ''...''] w) = (None, w0)"
    and "run_all (take k (views df output_dir))
        (print_line [Txt ''Generating plots...''] w0) = (None, wk)"
    and "k < length (views df output_dir)"
    and "(views df output_dir ! k) wk = (Some e, wk')"
  shows "main input_file output_dir w = (Some e, wk) \<and> wk' = wk"
proof -
  from assms(4) have "views df output_dir ! k \<in> set (views df output_dir)"
    by (rule nth_mem)
  then have same: "wk' = wk"
    using assms(5) by (rule failed_view_changes_nothing)
  from main_fails_at_view[OF assms] same show ?thesis by simp
qed

theorem failing_view_ends_run_witness:
  "load_gdpr_data default_input_file (files (world_with unencrypted_two_sizes))
     = Inr (labelled unencrypted_two_sizes)
   \<and> data_summary (labelled unencrypted_two_sizes)
        (print_line [Txt ''Loading data from '', Txt default_input_file, Txt ''...'']
           (world_with unencrypted_two_sizes))
     = (None, (world_with unencrypted_two_sizes)\<lparr>console :=
          [Txt ''Loading data from '', Txt default_input_file, Txt ''...'']
          # summary_lines (labelled unencrypted_two_sizes)\<rparr>)
   \<and> (views (labelled unencrypted_two_sizes) default_output_dir ! 0)
        ((world_with unencrypted_two_sizes)\<lparr>console :=
          [Txt ''Loading data from '', Txt default_input_file, Txt ''...'']
          # summary_lines (labelled unencrypted_two_sizes) @ [[Txt ''Generating plots...'']]\<rparr>)
     = (Some ValueError,
        (world_with unencrypted_two_sizes)\<lparr>console :=
          [Txt ''Loading data from '', Txt default_input_file, Txt ''...'']
          # summary_lines (labelled unencrypted_two_sizes) @ [[Txt ''Generating plots...'']]\<rparr>)
   \<and> main default_input_file default_output_dir (world_with unencrypted_two_sizes)
     = (Some ValueError,
        (world_with unencrypted_two_sizes)\<lparr>console :=
          [Txt ''Loading data from '', Txt default_input_file, Txt ''...'']
          # summary_lines (labelled unencrypted_two_sizes) @ [[Txt ''Generating plots...'']]\<rparr>)"
proof -
  let ?t = unencrypted_two_sizes
  let ?df = "labelled ?t"
  let ?w = "world_with ?t"
  let ?l = "[Txt ''Loading data from '', Txt default_input_file, Txt ''...'']"
  let ?wa = "?w\<lparr>console := ?l # summary_lines ?df\<rparr>"
  let ?wb = "?w\<lparr>console := ?l # summary_lines ?df @ [[Txt ''Generating plots...'']]\<rparr>"
  have load: "load_gdpr_data default_input_file (files ?w) = Inr ?df"
    by (rule load_world_with) (simp_all add: unencrypted_two_sizes_def all_columns_def)
  have "data_summary ?df (print_line ?l ?w)
      = (None, (print_line ?l ?w)\<lparr>console := console (print_line ?l ?w) @ summary_lines ?df\<rparr>)"
    by (rule data_summary_ok) (simp_all add: unencrypted_two_sizes_def all_columns_def)
  then have summary: "data_summary ?df (print_line ?l ?w) = (None, ?wa)"
    by (simp add: print_line_def world_with_def)
  have w1: "print_line [Txt ''Generating plots...''] ?wa = ?wb"
    by (simp add: print_line_def)
  have before: "run_all (take 0 (views ?df default_output_dir))
      (print_line [Txt ''Generating plots...''] ?wa) = (None, ?wb)"
    by (simp add: w1)
  have k: "0 < length (views ?df default_output_dir)" by (simp add: views_def)
  have fails: "(views ?df default_output_dir ! 0) ?wb = (Some ValueError, ?wb)"
    by (simp add: views_def create_encryption_effect_plots_def unencrypted_two_sizes_view1
        emit_Inl)
  from failing_view_ends_run[OF load summary before k fails]
  have "main default_input_file default_output_dir ?w = (Some ValueError, ?wb)"
    by simp
  with load summary fails show ?thesis by simp
qed

theorem failing_view_aborts_counterexample:
  "main default_input_file default_output_dir (world_with encrypted_two_batches)
     = (Some ValueError,
        (world_with encrypted_two_batches)\<lparr>console :=
          [[Txt ''Loading data from '', Txt default_input_file, Txt ''...''],
           [Txt ''Loaded '', Num 2, Txt '' benchmark results''],
           [Txt ''Data summary:''],
           [Txt ''  - Batch sizes: '', Nums [512, 1024]],
           [Txt ''  - Entry sizes: '', Nums [1024]],
           [Txt ''  - Writer threads: '', Nums [4]],
           [Txt ''  - Encryption settings: '', Nums [1]],
           [Txt ''  - Compression levels: '', Nums [0]],
           [Txt ''Generating plots...'']]\<rparr>)
   \<and> files (world_with encrypted_two_batches) ''gdpr_plots/batch_analysis.png'' = None
   \<and> files (snd (create_encryption_batch_analysis_plot (labelled encrypted_two_batches)
          default_output_dir (world_with encrypted_two_batches)))
        ''gdpr_plots/batch_analysis.png'' \<noteq> None"
proof -
  let ?t = encrypted_two_batches
  let ?df = "labelled ?t"
  let ?w = "world_with ?t"
  let ?l = "[Txt ''Loading data from '', Txt default_input_file, Txt ''...'']"
  let ?wa = "?w\<lparr>console := ?l # summary_lines ?df\<rparr>"
  let ?wb = "?w\<lparr>console := ?l # summary_lines ?df @ [[Txt ''Generating plots...'']]\<rparr>"
  have load: "load_gdpr_data default_input_file (files ?w) = Inr ?df"
    by (rule load_world_with) (simp_all add: encrypted_two_batches_def all_columns_def)
  have "data_summary ?df (print_line ?l ?w)
      = (None, (print_line ?l ?w)\<lparr>console := console (print_line ?l ?w) @ summary_lines ?df\<rparr>)"
    by (rule data_summary_ok) (simp_all add: encrypted_two_batches_def all_columns_def)
  then have summary: "data_summary ?df (print_line ?l ?w) = (None, ?wa)"
    by (simp add: print_line_def world_with_def)
  have w1: "print_line [Txt ''Generating plots...''] ?wa = ?wb"
    by (simp add: print_line_def)
  have before: "run_all (take 0 (views ?df default_output_dir))
      (print_line [Txt ''Generating plots...''] ?wa) = (None, ?wb)"
    by (simp add: w1)
  have k: "0 < length (views ?df default_output_dir)" by (simp add: views_def)
  have fails: "(views ?df default_output_dir ! 0) ?wb = (Some ValueError, ?wb)"
    by (simp add: views_def create_encryption_effect_plots_def encrypted_two_batches_view1
        emit_Inl)
  from main_fails_at_view[OF load summary before k fails]
  have m: "main default_input_file default_output_dir ?w = (Some ValueError, ?wb)" .
  have absent: "files ?w ''gdpr_plots/batch_analysis.png'' = None"
    by (simp add: world_with_def default_input_file_def)
  have f: "filter_eq2 Compression_level 0 Use_encryption 1 ?df = Inr ?df"
    by (simp add: filter_eq2_def encrypted_two_batches_def example_defs)
  have ne: "\<not> empty ?df" by (simp add: empty_def encrypted_two_batches_def example_defs)
  from encrypted_two_batches_view7 obtain fig where fig: "batch_analysis_figure ?df = Inr fig"
    by (cases "batch_analysis_figure ?df") simp_all
  from batch_analysis_figure_header[OF fig]
  have h: "Dim Consumers \<in> set (header ?df)" "Dim Entry_size_bytes \<in> set (header ?df)"
    by simp_all
  have later: "files (snd (create_encryption_batch_analysis_plot ?df default_output_dir ?w))
        ''gdpr_plots/batch_analysis.png'' \<noteq> None"
    by (simp add: create_encryption_batch_analysis_plot_def f ne fig
        print_variants_header[OF h] print_line_def files_save_both path_join_def
        default_output_dir_def)
  from m absent later show ?thesis
    by (simp add: summary_lines_encrypted_two_batches)
qed

text \<open>
  Claim C5, as amended. The claim says that the keys along every axis are the sorted
  distinct values observed in the data, also on the encryption axis of the
  compression-vs-encryption and entry-size-vs-encryption subplots. Those two subplots
  iterate over the fixed list \<open>encryption_settings = [0, 1]\<close>. What holds: in every
  subplot of every view the axis keys are the sorted distinct values of the axis column
  observed in the frame (in the batch-analysis view: in the filtered frame; for the
  heatmaps: both the column and the row keys), except in those two subplots, where they
  are \<open>[0, 1]\<close> whatever the data holds. In the counterexample every row is
  encrypted: the observed values are \<open>[1]\<close> and the axis keys are \<open>[0, 1]\<close>.
\<close>

theorem axis_keys_of_every_view:
  "(encryption_effect_figure df = Inr fig \<longrightarrow>
      map xkeys fig = [observed Batch_size (rows df), observed Entry_size_bytes (rows df),
                       observed Compression_level (rows df), observed Consumers (rows df)])
   \<and> (compression_effect_figure df = Inr fig \<longrightarrow>
      map xkeys fig = [observed Batch_size (rows df), observed Entry_size_bytes (rows df),
                       [0, 1], observed Consumers (rows df)])
   \<and> (entry_size_effect_figure df = Inr fig \<longrightarrow>
      map xkeys fig = [observed Batch_size (rows df), observed Compression_level (rows df),
                       [0, 1], observed Consumers (rows df)])
   \<and> (writer_threads_effect_figure df = Inr fig \<longrightarrow>
      map xkeys fig = replicate 4 (observed Consumers (rows df)))
   \<and> (batch_size_effect_figure df = Inr fig \<longrightarrow>
      map xkeys fig = replicate 4 (observed Batch_size (rows df)))
   \<and> (heatmaps_figure df = Inr fig \<longrightarrow>
      map xkeys fig = [observed Compression_level (rows df), observed Use_encryption (rows df),
                       observed Entry_size_bytes (rows df), observed Consumers (rows df)]
      \<and> map row_keys fig = [observed Batch_size (rows df), observed Entry_size_bytes (rows df),
                       observed Consumers (rows df), observed Batch_size (rows df)])
   \<and> (filter_eq2 Compression_level 0 Use_encryption 1 df = Inr filtered_df
        \<and> batch_analysis_figure filtered_df = Inr fig \<longrightarrow>
      map xkeys fig = replicate 2 (observed Batch_size
        (filter (\<lambda>r. compression_level r = 0 \<and> use_encryption r = 1) (rows df))))"
proof (intro conjI impI)
  assume "filter_eq2 Compression_level 0 Use_encryption 1 df = Inr filtered_df
        \<and> batch_analysis_figure filtered_df = Inr fig"
  then have f: "filtered_df = Frame (header df)
        (filter (\<lambda>r. compression_level r = 0 \<and> use_encryption r = 1) (rows df))"
    and b: "batch_analysis_figure filtered_df = Inr fig"
    by (auto dest: filter_eq2_Inr)
  from batch_analysis_xkeys[OF b] show "map xkeys fig = replicate 2 (observed Batch_size
        (filter (\<lambda>r. compression_level r = 0 \<and> use_encryption r = 1) (rows df)))"
    by (simp add: f)
qed (simp_all add: encryption_effect_xkeys compression_effect_xkeys entry_size_effect_xkeys
      writer_threads_effect_xkeys batch_size_effect_xkeys heatmaps_xkeys
      encryption_settings_def)

theorem axis_keys_of_every_view_witness:
  "map_sum id (map xkeys) (encryption_effect_figure (labelled spec_example))
     = Inr [[512], [1024], [0], [4]]
   \<and> map_sum id (map xkeys) (compression_effect_figure (labelled spec_example))
     = Inr [[512], [1024], [0, 1], [4]]
   \<and> map_sum id (map xkeys) (entry_size_effect_figure (labelled spec_example))
     = Inr [[512], [0], [0, 1], [4]]
   \<and> map_sum id (map xkeys) (writer_threads_effect_figure (labelled spec_example))
     = Inr [[4], [4], [4], [4]]
   \<and> map_sum id (map xkeys) (batch_size_effect_figure (labelled spec_example))
     = Inr [[512], [512], [512], [512]]
   \<and> map_sum id (map xkeys) (heatmaps_figure (labelled spec_example))
     = Inr [[0], [1], [1024], [4]]
   \<and> filter_eq2 Compression_level 0 Use_encryption 1 (labelled spec_example)
     = Inr (labelled spec_example)
   \<and> map_sum id (map xkeys) (batch_analysis_figure (labelled spec_example))
     = Inr [[512], [512]]"
proof -
  let ?df = "labelled spec_example"
  note view_keys = axis_keys_of_every_view[where df = ?df and filtered_df = ?df]
  have f: "filter_eq2 Compression_level 0 Use_encryption 1 ?df = Inr ?df"
    by (simp add: filter_eq2_def frame_defs)
  have all_rows: "filter (\<lambda>r. compression_level r = 0 \<and> use_encryption r = 1) (rows ?df)
      = rows ?df"
    by (simp add: frame_defs)
  have "map_sum id (map xkeys) (encryption_effect_figure ?df) = Inr [[512], [1024], [0], [4]]"
    using spec_example_view1 by (rule xkeys_of_result) (use view_keys in \<open>simp add: observed_spec_example\<close>)
  moreover
  have "map_sum id (map xkeys) (compression_effect_figure ?df) = Inr [[512], [1024], [0, 1], [4]]"
    using spec_example_view2 by (rule xkeys_of_result) (use view_keys in \<open>simp add: observed_spec_example\<close>)
  moreover
  have "map_sum id (map xkeys) (entry_size_effect_figure ?df) = Inr [[512], [0], [0, 1], [4]]"
    using spec_example_view3 by (rule xkeys_of_result) (use view_keys in \<open>simp add: observed_spec_example\<close>)
  moreover
  have "map_sum id (map xkeys) (writer_threads_effect_figure ?df) = Inr [[4], [4], [4], [4]]"
    using spec_example_view4
    by (rule xkeys_of_result) (use view_keys in \<open>simp add: observed_spec_example numeral_eq_Suc\<close>)
  moreover
  have "map_sum id (map xkeys) (batch_size_effect_figure ?df) = Inr [[512], [512], [512], [512]]"
    using spec_example_view5
    by (rule xkeys_of_result) (use view_keys in \<open>simp add: observed_spec_example numeral_eq_Suc\<close>)
  moreover
  have "map_sum id (map xkeys) (heatmaps_figure ?df) = Inr [[0], [1], [1024], [4]]"
    using spec_example_view6 by (rule xkeys_of_result) (use view_keys in \<open>simp add: observed_spec_example\<close>)
  moreover
  have "map_sum id (map xkeys) (batch_analysis_figure ?df) = Inr [[512], [512]]"
    using spec_example_view7
    by (rule xkeys_of_result)
       (use view_keys f in \<open>simp add: all_rows observed_spec_example numeral_eq_Suc\<close>)
  ultimately show ?thesis using f by simp
qed

theorem encryption_axis_is_fixed_counterexample:
  "unique_sorted Use_encryption (labelled spec_example) = Inr [1]
   \<and> map_sum id (map xkeys) (compression_effect_figure (labelled spec_example))
        = Inr [[512], [1024], [0, 1], [4]]
   \<and> map_sum id (map xkeys) (entry_size_effect_figure (labelled spec_example))
        = Inr [[512], [0], [0, 1], [4]]"
  by (simp add: frame_defs pandas_defs fallback_bars_def compression_label_of_def kb_label_def
      encryption_settings_def compression_effect_figure_def entry_size_effect_figure_def)

text \<open>
  Claim C6. The loader gives every record three labels by the fixed mappings
  \<open>use_encryption\<close> 0 to "No Encryption" and 1 to "With Encryption",
  \<open>compression_level\<close> 0 to "No Compression", 5 to "Medium (5)" and 9 to "High (9)",
  \<open>entry_size_bytes\<close> 1024 to "1KB", 2048 to "2KB" and 4096 to "4KB"; any other value
  gets the missing label and raises nothing. Every record keeps its nine numeric fields,
  no record is dropped, and the sorted distinct values and the grouped means of the
  loaded frame are those of the raw table. The witness loads a record of entry size 8192:
  its label is missing and it is the group 8192 of the aggregation.
\<close>

theorem load_labels_and_keeps_numbers:
  assumes "load_gdpr_data input_file fs = Inr df"
  shows "\<exists>raw. read_csv input_file fs = Inr raw
     \<and> length (rows df) = length (rows raw)
     \<and> (\<forall>i < length (rows raw).
          (\<forall>d. dim_val d (rows df ! i) = dim_val d (rows raw ! i))
        \<and> (\<forall>m. metric_val m (rows df ! i) = metric_val m (rows raw ! i))
        \<and> encryption_label (rows df ! i) =
            (if use_encryption (rows raw ! i) = 0 then Some ''No Encryption''
             else if use_encryption (rows raw ! i) = 1 then Some ''With Encryption''
             else None)
        \<and> compression_label (rows df ! i) =
            (if compression_level (rows raw ! i) = 0 then Some ''No Compression''
             else if compression_level (rows raw ! i) = 5 then Some ''Medium (5)''
             else if compression_level (rows raw ! i) = 9 then Some ''High (9)''
             else None)
        \<and> entry_size_label (rows df ! i) =
            (if entry_size_bytes (rows raw ! i) = 1024 then Some ''1KB''
             else if entry_size_bytes (rows raw ! i) = 2048 then Some ''2KB''
             else if entry_size_bytes (rows raw ! i) = 4096 then Some ''4KB''
             else None))
     \<and> (\<forall>d. unique_sorted d df = unique_sorted d raw)
     \<and> (\<forall>d m. groupby_mean d m df = groupby_mean d m raw)"
proof -
  from assms obtain raw where raw: "read_csv input_file fs = Inr raw"
    and df: "df = Frame (header raw @ [Label Encryption_label, Label Compression_label,
                                     Label Entry_size_label]) (map add_labels (rows raw))"
    by (auto simp: load_gdpr_data_Inr)
  have labels: "\<forall>i < length (rows raw).
          encryption_label (rows df ! i) =
            (if use_encryption (rows raw ! i) = 0 then Some ''No Encryption''
             else if use_encryption (rows raw ! i) = 1 then Some ''With Encryption''
             else None)
        \<and> compression_label (rows df ! i) =
            (if compression_level (rows raw ! i) = 0 then Some ''No Compression''
             else if compression_level (rows raw ! i) = 5 then Some ''Medium (5)''
             else if compression_level (rows raw ! i) = 9 then Some ''High (9)''
             else None)
        \<and> entry_size_label (rows df ! i) =
            (if entry_size_bytes (rows raw ! i) = 1024 then Some ''1KB''
             else if entry_size_bytes (rows raw ! i) = 2048 then Some ''2KB''
             else if entry_size_bytes (rows raw ! i) = 4096 then Some ''4KB''
             else None)"
    by (simp add: df add_labels_def encryption_map_def compression_map_def entry_size_map_def)
  have nums: "\<forall>i < length (rows raw).
          (\<forall>d. dim_val d (rows df ! i) = dim_val d (rows raw ! i))
        \<and> (\<forall>m. metric_val m (rows df ! i) = metric_val m (rows raw ! i))"
    by (simp add: df)
  have us: "\<forall>d. unique_sorted d df = unique_sorted d raw"
    by (simp add: df unique_sorted_def dim_column_def comp_def)
  have gm: "\<forall>d m. groupby_mean d m df = groupby_mean d m raw"
    by (simp add: df groupby_mean_def group_sums_map comp_def)
  have len: "length (rows df) = length (rows raw)" by (simp add: df)
  from raw len labels nums us gm show ?thesis by auto
qed

theorem load_labels_and_keeps_numbers_witness:
  "load_gdpr_data ''results.csv'' unencrypted_fs =
     Inr (Frame (all_columns @ [Label Encryption_label, Label Compression_label,
                                Label Entry_size_label]) [add_labels unencrypted_row])
   \<and> entry_size_bytes (add_labels unencrypted_row) = 8192
   \<and> entry_size_label (add_labels unencrypted_row) = None
   \<and> encryption_label (add_labels unencrypted_row) = Some ''No Encryption''
   \<and> compression_label (add_labels unencrypted_row) = Some ''No Compression''
   \<and> groupby_mean Entry_size_bytes Entries_per_sec
        (Frame (all_columns @ [Label Encryption_label, Label Compression_label,
                               Label Entry_size_label]) [add_labels unencrypted_row])
      = Inr [(8192, 50000)]"
proof -
  let ?df = "Frame (all_columns @ [Label Encryption_label, Label Compression_label,
                                Label Entry_size_label]) [add_labels unencrypted_row]"
  from load_labels_and_keeps_numbers[OF load_unencrypted]
  obtain raw where raw: "read_csv ''results.csv'' unencrypted_fs = Inr raw"
    and lab: "\<forall>i < length (rows raw).
        entry_size_label (rows ?df ! i) =
            (if entry_size_bytes (rows raw ! i) = 1024 then Some ''1KB''
             else if entry_size_bytes (rows raw ! i) = 2048 then Some ''2KB''
             else if entry_size_bytes (rows raw ! i) = 4096 then Some ''4KB''
             else None)"
    and gm: "\<forall>d m. groupby_mean d m ?df = groupby_mean d m raw"
    by blast
  from raw have r: "raw = Frame all_columns [unencrypted_row]"
    by (simp add: read_csv_def unencrypted_fs_def)
  from lab have l: "entry_size_label (add_labels unencrypted_row) = None"
    by (simp add: r unencrypted_row_def)
  from gm have "groupby_mean Entry_size_bytes Entries_per_sec ?df
      = groupby_mean Entry_size_bytes Entries_per_sec (Frame all_columns [unencrypted_row])"
    by (simp add: r)
  also have "\<dots> = Inr [(8192, 50000)]"
    by (simp add: groupby_mean_def all_columns_def group_sums_def group_means_def
        unencrypted_row_def)
  finally have g: "groupby_mean Entry_size_bytes Entries_per_sec ?df = Inr [(8192, 50000)]" .
  have rest: "entry_size_bytes (add_labels unencrypted_row) = 8192"
    "encryption_label (add_labels unencrypted_row) = Some ''No Encryption''"
    "compression_label (add_labels unencrypted_row) = Some ''No Compression''"
    by (simp_all add: add_labels_def unencrypted_row_def encryption_map_def compression_map_def)
  from load_unencrypted l g rest show ?thesis by simp
qed

text \<open>
  Claim C7. In the write-amplification subplot of the batch-analysis view every plotted
  value is \<open>(ratio - 1) * 100\<close>, where \<open>ratio\<close> is the mean write amplification
  of a variant at a batch size; there is one line per variant that has rows and one value
  per batch size the variant has rows for. In the witness the means are 1.0 and 1.25 and
  the plotted values 0 and 25.
\<close>

theorem write_amplification_percent:
  assumes "batch_analysis_figure filtered_df = Inr [left, right]"
  shows "map heights (draws right) =
     map (\<lambda>c. map (\<lambda>bs. (mean_of write_amplification
                             (rows_with Batch_size bs (variant_rows c (rows filtered_df))) - 1) * 100)
                  (filter (\<lambda>bs. bs \<in> batch_size ` set (variant_rows c (rows filtered_df)))
                     (observed Batch_size (rows filtered_df))))
       (filter (\<lambda>c. variant_rows c (rows filtered_df) \<noteq> []) (map fst variants))"
  using batch_analysis_values(2)[OF assms] by (simp add: percent_values_def)

theorem write_amplification_percent_witness:
  "\<exists>left right. batch_analysis_figure (labelled percent_example) = Inr [left, right]
     \<and> map heights (draws right) = [[0, 25]]"
proof -
  let ?df = "labelled percent_example"
  from percent_example_figure obtain fig where fig: "batch_analysis_figure ?df = Inr fig"
    by (cases "batch_analysis_figure ?df") simp_all
  from batch_analysis_xkeys[OF fig] have "length fig = 2"
    by (simp add: length_of_xkeys)
  then obtain left right where "fig = [left, right]"
    by (auto simp: length_Suc_conv numeral_eq_Suc)
  with fig have f: "batch_analysis_figure ?df = Inr [left, right]" by simp
  have "map heights (draws right) = [[0, 25]]"
    unfolding write_amplification_percent[OF f]
    by (simp add: percent_example_def two_levels_defs variants_def variant_rows_def
        rows_with_def observed_code mean_of_def)
  with f show ?thesis by (intro exI[of _ left] exI[of _ right]) simp
qed




text \<open>
  Claim C9. Running the report a second time on what the first run left, with the input
  file unchanged, ends with the same exit status, prints the same lines and leaves the
  same files with the same contents: the world after the second run is the world after
  the first. The consoles are compared from the same starting console. Artifacts are
  compared by the data drawn into them; bytes of the rendered images and floating-point
  rounding are outside the model. The witness runs the report on the example of the
  specification under the default paths: the run succeeds, leaves the input file as it
  was, and a second run reproduces it.
\<close>

theorem report_twice_same_output:
  assumes "main input_file output_dir w = (r, w')"
    and "files w' input_file = files w input_file"
  shows "main input_file output_dir (w'\<lparr>console := console w\<rparr>) = (r, w')"
proof -
  let ?l = "[Txt ''Loading data from '', Txt input_file, Txt ''...'']"
  let ?w2 = "w'\<lparr>console := console w\<rparr>"
  have "files ?w2 input_file = files w input_file"
    using assms(2) by simp
  then have same: "load_gdpr_data input_file (files ?w2) = load_gdpr_data input_file (files w)"
    by (rule load_depends_on_input_only)
  show ?thesis
  proof (cases "load_gdpr_data input_file (files w)")
    case (Inl e)
    from assms(1) have "(Some e, print_line ?l w) = (r, w')"
      unfolding main_eq Inl by simp
    then have r: "r = Some e" and w': "w' = print_line ?l w"
      by simp_all
    have "main input_file output_dir ?w2 = (Some e, print_line ?l ?w2)"
      unfolding main_eq same Inl by simp
    moreover have "print_line ?l ?w2 = w'"
      unfolding w' by (simp add: print_line_def)
    ultimately show ?thesis
      unfolding r by simp
  next
    case (Inr df)
    from assms(1) have run: "report df output_dir (print_line ?l w) = (r, w')"
      unfolding main_eq Inr by simp
    have "report df output_dir (w'\<lparr>console := console (print_line ?l w)\<rparr>) = (r, w')"
      using uniform_report run by (rule uniform_rerun)
    moreover have "print_line ?l ?w2 = w'\<lparr>console := console (print_line ?l w)\<rparr>"
      by (simp add: print_line_def)
    moreover have "main input_file output_dir ?w2 = report df output_dir (print_line ?l ?w2)"
      unfolding main_eq same Inr by simp
    ultimately show ?thesis
      by simp
  qed
qed

theorem report_twice_same_output_witness:
  "fst (main default_input_file default_output_dir (world_with spec_example)) = None
   \<and> files (snd (main default_input_file default_output_dir (world_with spec_example)))
        default_input_file
      = files (world_with spec_example) default_input_file
   \<and> main default_input_file default_output_dir
        ((snd (main default_input_file default_output_dir (world_with spec_example)))
           \<lparr>console := console (world_with spec_example)\<rparr>)
      = main default_input_file default_output_dir (world_with spec_example)"
proof -
  let ?res = "main default_input_file default_output_dir (world_with spec_example)"
  have run: "?res = (fst ?res, snd ?res)" by simp
  have kept: "files (snd ?res) default_input_file = files (world_with spec_example) default_input_file"
    using default_input_is_no_output by (rule main_keeps_other_files)
  from report_twice_same_output[OF run kept]
  have "main default_input_file default_output_dir
        ((snd ?res)\<lparr>console := console (world_with spec_example)\<rparr>) = ?res"
    by simp
  with spec_example_run kept show ?thesis by simp
qed

text \<open>
  Claim C10. In the scaling-efficiency subplot the normalised series of an entry size is
  drawn exactly when the rows of that entry size include the smallest observed
  writer-thread count and their mean throughput at that count is strictly positive;
  otherwise the entry size has no series. A drawn series divides by that baseline, which
  is not zero, and shows 0 for a thread count the entry size has no row for. With the
  three columns present the subplot never raises. In the witness the entry size 2048 has
  baseline 0 and the entry size 4096 has no row at the smallest thread count: only the
  series of 1024 is drawn.
\<close>

theorem scaling_series_guarded:
  "(Dim Entry_size_bytes \<in> set (header df) \<and> Dim Consumers \<in> set (header df)
      \<and> Metric Entries_per_sec \<in> set (header df) \<longrightarrow>
      scaling_axes (observed Consumers (rows df)) df =
        Inr \<lparr>xkeys = observed Consumers (rows df),
             draws = concat (map (scaling_series (rows df)) (observed Entry_size_bytes (rows df)))
               @ [IdealLine (map real_of_int (observed Consumers (rows df)))
                    (ideal_scaling (observed Consumers (rows df))) [Txt ''Ideal Scaling'']]\<rparr>)
   \<and> (writer_threads_effect_figure df = Inr [a1, a2, a3, a4] \<longrightarrow>
      draws a3 = concat (map (scaling_series (rows df)) (observed Entry_size_bytes (rows df)))
               @ [IdealLine (map real_of_int (observed Consumers (rows df)))
                    (ideal_scaling (observed Consumers (rows df))) [Txt ''Ideal Scaling'']])
   \<and> (scaling_series rs es \<noteq> [] \<longleftrightarrow>
        Min (consumers ` set rs) \<in> consumers ` set (rows_with Entry_size_bytes es rs)
        \<and> 0 < mean_of entries_per_sec
                 (rows_with Consumers (Min (consumers ` set rs))
                    (rows_with Entry_size_bytes es rs)))
   \<and> (\<forall>ln \<in> set (scaling_series rs es).
        ln = Line (map real_of_int (observed Consumers rs))
              (map (\<lambda>c. if c \<in> consumers ` set (rows_with Entry_size_bytes es rs)
                        then mean_of entries_per_sec
                               (rows_with Consumers c (rows_with Entry_size_bytes es rs))
                             / baseline_of rs es
                        else 0)
                 (observed Consumers rs))
              (kb_label es)
        \<and> baseline_of rs es \<noteq> 0)"
proof (intro conjI impI)
  assume cols: "Dim Entry_size_bytes \<in> set (header df) \<and> Dim Consumers \<in> set (header df)
      \<and> Metric Entries_per_sec \<in> set (header df)"
  then have "\<not> isl (scaling_axes (observed Consumers (rows df)) df)"
    by (intro scaling_axes_total) simp_all
  then obtain a where a: "scaling_axes (observed Consumers (rows df)) df = Inr a"
    by (metis sum.collapse(2))
  from scaling_axes_Inr[OF a] a
  show "scaling_axes (observed Consumers (rows df)) df =
        Inr \<lparr>xkeys = observed Consumers (rows df),
             draws = concat (map (scaling_series (rows df)) (observed Entry_size_bytes (rows df)))
               @ [IdealLine (map real_of_int (observed Consumers (rows df)))
                    (ideal_scaling (observed Consumers (rows df))) [Txt ''Ideal Scaling'']]\<rparr>"
    by simp
next
  assume "writer_threads_effect_figure df = Inr [a1, a2, a3, a4]"
  then have "scaling_axes (observed Consumers (rows df)) df = Inr a3"
    unfolding writer_threads_effect_figure_def
    by (auto simp: ebind_Inr_iff dest!: unique_sorted_Inr)
  from scaling_axes_Inr[OF this]
  show "draws a3 = concat (map (scaling_series (rows df)) (observed Entry_size_bytes (rows df)))
               @ [IdealLine (map real_of_int (observed Consumers (rows df)))
                    (ideal_scaling (observed Consumers (rows df))) [Txt ''Ideal Scaling'']]"
    by simp
next
  show "scaling_series rs es \<noteq> [] \<longleftrightarrow>
        Min (consumers ` set rs) \<in> consumers ` set (rows_with Entry_size_bytes es rs)
        \<and> 0 < mean_of entries_per_sec
                 (rows_with Consumers (Min (consumers ` set rs))
                    (rows_with Entry_size_bytes es rs))"
    by (simp add: scaling_series_def baseline_of_def)
next
  show "\<forall>ln \<in> set (scaling_series rs es).
        ln = Line (map real_of_int (observed Consumers rs))
              (map (\<lambda>c. if c \<in> consumers ` set (rows_with Entry_size_bytes es rs)
                        then mean_of entries_per_sec
                               (rows_with Consumers c (rows_with Entry_size_bytes es rs))
                             / baseline_of rs es
                        else 0)
                 (observed Consumers rs))
              (kb_label es)
        \<and> baseline_of rs es \<noteq> 0"
    by (simp add: scaling_series_def)
qed

theorem scaling_series_guarded_witness:
  "Dim Entry_size_bytes \<in> set (header (labelled scaling_example))
   \<and> Dim Consumers \<in> set (header (labelled scaling_example))
   \<and> Metric Entries_per_sec \<in> set (header (labelled scaling_example))
   \<and> observed Consumers (rows (labelled scaling_example)) = [4, 8]
   \<and> observed Entry_size_bytes (rows (labelled scaling_example)) = [1024, 2048, 4096]
   \<and> scaling_axes [4, 8] (labelled scaling_example) =
        Inr \<lparr>xkeys = [4, 8],
             draws = [Line [4, 8] [1, 8 / 5] [Num 1, Txt ''KB''],
                      IdealLine [4, 8] [Finite 1, Finite 2] [Txt ''Ideal Scaling'']]\<rparr>
   \<and> (\<exists>a1 a2 a3 a4. writer_threads_effect_figure (labelled scaling_example)
          = Inr [a1, a2, a3, a4]
        \<and> draws a3 = [Line [4, 8] [1, 8 / 5] [Num 1, Txt ''KB''],
                      IdealLine [4, 8] [Finite 1, Finite 2] [Txt ''Ideal Scaling'']])"
proof -
  let ?df = "labelled scaling_example"
  have cols: "Dim Entry_size_bytes \<in> set (header ?df) \<and> Dim Consumers \<in> set (header ?df)
      \<and> Metric Entries_per_sec \<in> set (header ?df)"
    by (simp add: scaling_example_def all_columns_def)
  have oc: "observed Consumers (rows ?df) = [4, 8]"
    and oe: "observed Entry_size_bytes (rows ?df) = [1024, 2048, 4096]"
    by (simp_all add: observed_code scaling_example_def two_levels_defs)
  have ser: "scaling_series (rows ?df) 1024 @ scaling_series (rows ?df) 2048
        @ scaling_series (rows ?df) 4096
      = [Line [4, 8] [1, 8 / 5] [Num 1, Txt ''KB'']]"
    by (simp add: scaling_series_def baseline_of_def observed_code rows_with_def mean_of_def
        kb_label_def scaling_example_def two_levels_defs)
  have ideal: "ideal_scaling [4, 8] = [Finite 1, Finite 2]"
    by (simp add: ideal_scaling_def np_true_divide_def)
  from scaling_series_guarded[where df = ?df, THEN conjunct1] cols
  have ax: "scaling_axes [4, 8] ?df =
        Inr \<lparr>xkeys = [4, 8],
             draws = [Line [4, 8] [1, 8 / 5] [Num 1, Txt ''KB''],
                      IdealLine [4, 8] [Finite 1, Finite 2] [Txt ''Ideal Scaling'']]\<rparr>"
    by (simp add: oc oe ser ideal)
  obtain a1 a2 a3 a4 where fig: "writer_threads_effect_figure ?df = Inr [a1, a2, a3, a4]"
    using scaling_example_view4
    by (rule four_axes) (simp add: length_of_xkeys[OF writer_threads_effect_xkeys])
  from scaling_series_guarded[where df = ?df, THEN conjunct2, THEN conjunct1, of a1 a2 a3 a4] fig
  have "draws a3 = [Line [4, 8] [1, 8 / 5] [Num 1, Txt ''KB''],
                      IdealLine [4, 8] [Finite 1, Finite 2] [Txt ''Ideal Scaling'']]"
    by (simp add: oc oe ser ideal)
  with fig have "\<exists>a1 a2 a3 a4. writer_threads_effect_figure ?df = Inr [a1, a2, a3, a4]
        \<and> draws a3 = [Line [4, 8] [1, 8 / 5] [Num 1, Txt ''KB''],
                      IdealLine [4, 8] [Finite 1, Finite 2] [Txt ''Ideal Scaling'']]"
    by (intro exI[of _ a1] exI[of _ a2] exI[of _ a3] exI[of _ a4]) simp
  with cols oc oe ax show ?thesis by simp
qed

end
